theory Spec2Isabelle
  imports Complex_Main
begin

section \<open>Python values, dictionaries and exceptions\<close>

text \<open>
  The evaluator of \<^verbatim>\<open>task.py\<close> builds plain Python dictionaries whose values are
  booleans, strings, numbers, lists and further dictionaries. They are modelled by one
  datatype of values; a dictionary is an association list in insertion order, as a
  Python \<^verbatim>\<open>dict\<close> keeps it. The only floats of the program are the literals
  \<^verbatim>\<open>0.0\<close> and \<^verbatim>\<open>1.0\<close>.
\<close>

datatype pyval =
    PNone
  | PBool bool
  | PInt int
  | PFloat real
  | PStr string
  | PList "pyval list"
  | PDict "(string \<times> pyval) list"

type_synonym pydict = "(string \<times> pyval) list"

text \<open>\<^verbatim>\<open>d.get(k)\<close>: the value stored under a key, if any.\<close>

fun dict_get :: "pydict \<Rightarrow> string \<Rightarrow> pyval option" where
  "dict_get [] k = None"
| "dict_get ((k', v) # d) k = (if k' = k then Some v else dict_get d k)"

text \<open>\<^verbatim>\<open>d[k] = v\<close>: overwrite in place, or append a new key at the end.\<close>

fun dict_set :: "string \<Rightarrow> pyval \<Rightarrow> pydict \<Rightarrow> pydict" where
  "dict_set k v [] = [(k, v)]"
| "dict_set k v ((k', v') # d) =
     (if k' = k then (k, v) # d else (k', v') # dict_set k v d)"

text \<open>Python truthiness, as \<^verbatim>\<open>if x:\<close> and the conditional expression test it.\<close>

fun truthy :: "pyval \<Rightarrow> bool" where
  "truthy PNone = False"
| "truthy (PBool b) = b"
| "truthy (PInt i) = (i \<noteq> 0)"
| "truthy (PFloat r) = (r \<noteq> 0)"
| "truthy (PStr s) = (s \<noteq> [])"
| "truthy (PList xs) = (xs \<noteq> [])"
| "truthy (PDict d) = (d \<noteq> [])"

text \<open>
  Exceptions. Every \<^verbatim>\<open>except\<close> clause of the program names either
  \<^verbatim>\<open>HttpError\<close> (of \<^verbatim>\<open>googleapiclient.errors\<close>) or \<^verbatim>\<open>Exception\<close>, so an exception
  value records whether it is an \<^verbatim>\<open>HttpError\<close>. \<^verbatim>\<open>KeyError\<close> is what a subscript
  on a missing key raises; \<^verbatim>\<open>OtherException\<close> stands for every other subclass of
  \<^verbatim>\<open>Exception\<close> (a socket timeout, a failed name lookup, a failed token refresh, ...)
  and carries its string form.
\<close>

datatype exn =
    HttpError string
  | KeyError string
  | OtherException string

text \<open>\<^verbatim>\<open>str(e)\<close>; the string form of a \<^verbatim>\<open>KeyError\<close> is the quoted key.\<close>

fun str_exn :: "exn \<Rightarrow> string" where
  "str_exn (HttpError m) = m"
| "str_exn (KeyError k) = [CHR 0x27] @ k @ [CHR 0x27]"
| "str_exn (OtherException m) = m"

text \<open>\<^verbatim>\<open>isinstance(e, HttpError)\<close>, the test of \<^verbatim>\<open>except HttpError\<close>.\<close>

fun is_HttpError :: "exn \<Rightarrow> bool" where
  "is_HttpError (HttpError m) = True"
| "is_HttpError (KeyError k) = False"
| "is_HttpError (OtherException m) = False"

section \<open>Strings\<close>

text \<open>\<^verbatim>\<open>s.startswith(p)\<close> and the substring test \<^verbatim>\<open>p in s\<close>.\<close>

fun starts_with :: "string \<Rightarrow> string \<Rightarrow> bool" where
  "starts_with s [] = True"
| "starts_with [] (p # ps) = False"
| "starts_with (c # cs) (p # ps) = (c = p \<and> starts_with cs ps)"

fun contains :: "string \<Rightarrow> string \<Rightarrow> bool" where
  "contains [] p = (p = [])"
| "contains (c # cs) p = (starts_with (c # cs) p \<or> contains cs p)"

text \<open>
  \<^verbatim>\<open>s.lower()\<close> on the letters A to Z; every other character is kept. (Python
  lowers further letters outside ASCII; the marker phrase itself is ASCII.)
\<close>

definition lower_char :: "char \<Rightarrow> char" where
  "lower_char c =
     (let n = (of_char c :: nat) in if 65 \<le> n \<and> n \<le> 90 then char_of (n + 32) else c)"

definition lower :: "string \<Rightarrow> string" where
  "lower s = map lower_char s"

section \<open>The credential store\<close>

text \<open>
  \<^verbatim>\<open>GoogleAPIClient._get_oauth_credentials\<close> reads \<^verbatim>\<open>token.pickle\<close>. What it can
  observe of the file system is: the file is absent; \<^verbatim>\<open>open\<close> raises; \<^verbatim>\<open>pickle.load\<close>
  raises; or \<^verbatim>\<open>pickle.load\<close> returns an object. That object is falsy (\<^verbatim>\<open>None\<close>), or
  a credential with its \<^verbatim>\<open>valid\<close> property, or a truthy object of another class, which
  has no attribute \<^verbatim>\<open>valid\<close>.
\<close>

record credential =
  token :: string
  valid :: bool

datatype unpickled =
    NoneObject
  | Credential credential
  | ForeignObject

datatype token_file =
    Absent
  | Unreadable exn
  | Corrupt exn
  | Pickled unpickled

text \<open>\<^verbatim>\<open>os.path.exists(token_file)\<close>\<close>

fun path_exists :: "token_file \<Rightarrow> bool" where
  "path_exists Absent = False"
| "path_exists (Unreadable e) = True"
| "path_exists (Corrupt e) = True"
| "path_exists (Pickled obj) = True"

text \<open>\<^verbatim>\<open>with open(token_file, 'rb') as token: creds = pickle.load(token)\<close>\<close>

fun open_and_load :: "token_file \<Rightarrow> exn + unpickled" where
  "open_and_load Absent = Inl (OtherException ''No such file or directory'')"
| "open_and_load (Unreadable e) = Inl e"
| "open_and_load (Corrupt e) = Inl e"
| "open_and_load (Pickled obj) = Inr obj"

text \<open>
  The body of the \<^verbatim>\<open>try\<close> block, ending in \<^verbatim>\<open>if creds and creds.valid: return creds\<close>:
  \<^verbatim>\<open>Inr (Some c)\<close> is \<^verbatim>\<open>return creds\<close>, \<^verbatim>\<open>Inr None\<close> is falling out of the block,
  \<^verbatim>\<open>Inl e\<close> an exception raised in it.
\<close>

definition load_token :: "token_file \<Rightarrow> exn + credential option" where
  "load_token f =
     (case open_and_load f of
        Inl e \<Rightarrow> Inl e
      | Inr creds \<Rightarrow>
          (case creds of
             NoneObject \<Rightarrow> Inr None
           | Credential c \<Rightarrow> if valid c then Inr (Some c) else Inr None
           | ForeignObject \<Rightarrow> Inl (OtherException ''object has no attribute valid'')))"

text \<open>
  \<^verbatim>\<open>_get_oauth_credentials\<close> (the leading underscore is dropped): \<^verbatim>\<open>except Exception: pass\<close>
  swallows whatever the block raised, and the function ends in \<^verbatim>\<open>return None\<close>.
\<close>

definition get_oauth_credentials :: "token_file \<Rightarrow> exn + credential option" where
  "get_oauth_credentials f =
     (if path_exists f then
        (case load_token f of
           Inl e \<Rightarrow> Inr None
         | Inr (Some c) \<Rightarrow> Inr (Some c)
         | Inr None \<Rightarrow> Inr None)
      else Inr None)"

section \<open>The remote query client\<close>

text \<open>
  Log lines the client prints; the string is the formatted exception.
\<close>

datatype log_line =
    GmailServiceNotAvailable
  | GmailApiError string
  | CalendarServiceNotAvailable
  | CalendarApiError string

subsection \<open>Message search\<close>

text \<open>
  The Gmail service as the client sees it: \<^verbatim>\<open>users().messages().list(...).execute()\<close>
  and \<^verbatim>\<open>users().messages().get(...).execute()\<close> either raise or return a JSON object.
  A key read with \<^verbatim>\<open>.get(k, default)\<close> or with a subscript is an optional field.
\<close>

record header =
  h_name :: string
  h_value :: string

record msg_ref =
  ref_id :: "string option"

record list_response =
  messages :: "msg_ref list option"

record payload =
  headers :: "header list option"

record msg_data =
  payload :: "payload option"

record gmail_service =
  messages_list :: "string \<Rightarrow> nat \<Rightarrow> exn + list_response"
  messages_get :: "string \<Rightarrow> exn + msg_data"

text \<open>
  An \<^verbatim>\<open>email_info\<close> dictionary; its keys \<^verbatim>\<open>id\<close>, \<^verbatim>\<open>to\<close>, \<^verbatim>\<open>from\<close>, \<^verbatim>\<open>subject\<close>
  and \<^verbatim>\<open>date\<close> are always present.
\<close>

record email_info =
  email_id :: string
  email_to :: string
  email_from :: string
  email_subject :: string
  email_date :: string

text \<open>\<^verbatim>\<open>next((h['value'] for h in headers if h['name'] == name), '')\<close>\<close>

fun header_value :: "header list \<Rightarrow> string \<Rightarrow> string" where
  "header_value [] name = []"
| "header_value (h # hs) name = (if h_name h = name then h_value h else header_value hs name)"

text \<open>One turn of the loop over \<^verbatim>\<open>messages\<close>.\<close>

definition fetch_email :: "gmail_service \<Rightarrow> msg_ref \<Rightarrow> exn + email_info" where
  "fetch_email svc msg =
     (case ref_id msg of
        None \<Rightarrow> Inl (KeyError ''id'')
      | Some i \<Rightarrow>
          (case messages_get svc i of
             Inl e \<Rightarrow> Inl e
           | Inr md \<Rightarrow>
               (case payload md of
                  None \<Rightarrow> Inl (KeyError ''payload'')
                | Some pl \<Rightarrow>
                    (case headers pl of
                       None \<Rightarrow> Inl (KeyError ''headers'')
                     | Some hs \<Rightarrow>
                         Inr \<lparr>email_id = i,
                              email_to = header_value hs ''To'',
                              email_from = header_value hs ''From'',
                              email_subject = header_value hs ''Subject'',
                              email_date = header_value hs ''Date''\<rparr>))))"

text \<open>The loop; the first exception ends it.\<close>

fun fetch_emails :: "gmail_service \<Rightarrow> msg_ref list \<Rightarrow> email_info list \<Rightarrow> exn + email_info list" where
  "fetch_emails svc [] email_data = Inr email_data"
| "fetch_emails svc (msg # msgs) email_data =
     (case fetch_email svc msg of
        Inl e \<Rightarrow> Inl e
      | Inr email \<Rightarrow> fetch_emails svc msgs (email_data @ [email]))"

text \<open>
  The statements of \<^verbatim>\<open>get_recent_emails\<close> between the service test and the
  \<^verbatim>\<open>except\<close> clause.
\<close>

definition search_messages :: "gmail_service \<Rightarrow> string \<Rightarrow> nat \<Rightarrow> exn + email_info list" where
  "search_messages svc query max_results =
     (case messages_list svc query max_results of
        Inl e \<Rightarrow> Inl e
      | Inr results \<Rightarrow>
          fetch_emails svc (case messages results of None \<Rightarrow> [] | Some ms \<Rightarrow> ms) [])"

subsection \<open>Calendar listing\<close>

record time_spec =
  dateTime :: "string option"
  date :: "string option"

record organizer =
  email :: "string option"

record event =
  id_field :: "string option"
  summary :: "string option"
  start_field :: "time_spec option"
  end_field :: "time_spec option"
  organizer_field :: "organizer option"

record events_response =
  items :: "event list option"

text \<open>
  The keyword arguments of \<^verbatim>\<open>events().list\<close>: \<^verbatim>\<open>calendarId\<close>, \<^verbatim>\<open>maxResults\<close>, and
  \<^verbatim>\<open>timeMin\<close>, \<^verbatim>\<open>timeMax\<close> when given.
\<close>

record list_kwargs =
  calendarId :: string
  maxResults :: nat
  timeMin :: "string option"
  timeMax :: "string option"

record calendar_service =
  events_list :: "list_kwargs \<Rightarrow> exn + events_response"

text \<open>
  An \<^verbatim>\<open>event_info\<close> dictionary; its keys \<^verbatim>\<open>id\<close>, \<^verbatim>\<open>title\<close>, \<^verbatim>\<open>start\<close>, \<^verbatim>\<open>end\<close>
  and \<^verbatim>\<open>organizer\<close> are always present.
\<close>

record event_info =
  ev_id :: string
  ev_title :: string
  ev_start :: string
  ev_end :: string
  ev_organizer :: string

text \<open>\<^verbatim>\<open>d.get(k, '')\<close> on an optional string.\<close>

definition get_or_empty :: "string option \<Rightarrow> string" where
  "get_or_empty v = (case v of None \<Rightarrow> [] | Some s \<Rightarrow> s)"

text \<open>
  \<^verbatim>\<open>event.get(k, {}).get('dateTime', event.get(k, {}).get('date', ''))\<close>: the
  timestamp, else the date of an all-day event, else the empty string.
\<close>

definition time_of :: "time_spec option \<Rightarrow> string" where
  "time_of ts =
     (case ts of
        None \<Rightarrow> []
      | Some t \<Rightarrow> (case dateTime t of Some d \<Rightarrow> d | None \<Rightarrow> get_or_empty (date t)))"

definition normalise_event :: "event \<Rightarrow> event_info" where
  "normalise_event ev =
     \<lparr>ev_id = get_or_empty (id_field ev),
      ev_title = get_or_empty (summary ev),
      ev_start = time_of (start_field ev),
      ev_end = time_of (end_field ev),
      ev_organizer =
        (case organizer_field ev of None \<Rightarrow> [] | Some og \<Rightarrow> get_or_empty (email og))\<rparr>"

text \<open>\<^verbatim>\<open>if time_min:\<close> holds for a non-empty string only.\<close>

definition if_given :: "string option \<Rightarrow> string option" where
  "if_given v = (case v of None \<Rightarrow> None | Some s \<Rightarrow> if s = [] then None else Some s)"

text \<open>
  The statements of \<^verbatim>\<open>get_calendar_events\<close> between the service test and the
  \<^verbatim>\<open>except\<close> clause.
\<close>

definition list_events ::
  "calendar_service \<Rightarrow> string \<Rightarrow> string option \<Rightarrow> string option \<Rightarrow> exn + event_info list" where
  "list_events svc calendar_id time_min time_max =
     (case events_list svc
             \<lparr>calendarId = calendar_id, maxResults = 50,
              timeMin = if_given time_min, timeMax = if_given time_max\<rparr> of
        Inl e \<Rightarrow> Inl e
      | Inr results \<Rightarrow>
          Inr (map normalise_event (case items results of None \<Rightarrow> [] | Some evs \<Rightarrow> evs)))"

subsection \<open>The client\<close>

record GoogleAPIClient =
  gmail_service :: "gmail_service option"
  calendar_service :: "calendar_service option"

text \<open>
  \<^verbatim>\<open>try: ... except HttpError as error: print(...); return []\<close>. An exception that is
  not an \<^verbatim>\<open>HttpError\<close> leaves the function. The result is what was printed and what
  was returned or raised.
\<close>

definition get_recent_emails ::
  "GoogleAPIClient \<Rightarrow> string \<Rightarrow> nat \<Rightarrow> log_line list \<times> (exn + email_info list)" where
  "get_recent_emails self query max_results =
     (case gmail_service self of
        None \<Rightarrow> ([GmailServiceNotAvailable], Inr [])
      | Some svc \<Rightarrow>
          (case search_messages svc query max_results of
             Inr email_data \<Rightarrow> ([], Inr email_data)
           | Inl error \<Rightarrow>
               if is_HttpError error then ([GmailApiError (str_exn error)], Inr [])
               else ([], Inl error)))"

definition get_calendar_events ::
  "GoogleAPIClient \<Rightarrow> string \<Rightarrow> string option \<Rightarrow> string option
     \<Rightarrow> log_line list \<times> (exn + event_info list)" where
  "get_calendar_events self calendar_id time_min time_max =
     (case calendar_service self of
        None \<Rightarrow> ([CalendarServiceNotAvailable], Inr [])
      | Some svc \<Rightarrow>
          (case list_events svc calendar_id time_min time_max of
             Inr event_data \<Rightarrow> ([], Inr event_data)
           | Inl error \<Rightarrow>
               if is_HttpError error then ([CalendarApiError (str_exn error)], Inr [])
               else ([], Inl error)))"

section \<open>Local time\<close>

text \<open>
  A naive \<^verbatim>\<open>datetime\<close>, as \<^verbatim>\<open>datetime.now()\<close> returns it. The clock is the sequence
  of readings that the successive calls of \<^verbatim>\<open>datetime.now()\<close> return during one
  evaluation.
\<close>

record datetime =
  year :: nat
  month :: nat
  day :: nat
  hour :: nat
  minute :: nat
  second :: nat
  microsecond :: nat

type_synonym clock = "nat \<Rightarrow> datetime"

text \<open>\<^verbatim>\<open>a > b\<close> on naive datetimes compares the fields from the year down.\<close>

definition datetime_gt :: "datetime \<Rightarrow> datetime \<Rightarrow> bool" where
  "datetime_gt a b =
     (if year a \<noteq> year b then year a > year b
      else if month a \<noteq> month b then month a > month b
      else if day a \<noteq> day b then day a > day b
      else if hour a \<noteq> hour b then hour a > hour b
      else if minute a \<noteq> minute b then minute a > minute b
      else if second a \<noteq> second b then second a > second b
      else microsecond a > microsecond b)"

text \<open>\<^verbatim>\<open>t.replace(hour=h, minute=m, second=s)\<close>: the microsecond stays.\<close>

definition replace_hms :: "datetime \<Rightarrow> nat \<Rightarrow> nat \<Rightarrow> nat \<Rightarrow> datetime" where
  "replace_hms t h m s = t\<lparr>hour := h, minute := m, second := s\<rparr>"

definition two_digits :: "nat \<Rightarrow> string" where
  "two_digits n = [char_of (48 + n div 10 mod 10), char_of (48 + n mod 10)]"

text \<open>\<^verbatim>\<open>t.strftime('%I:%M %p')\<close>: the hour on the 12-hour clock, the minute, AM or PM.\<close>

definition strftime_IMp :: "datetime \<Rightarrow> string" where
  "strftime_IMp t =
     two_digits (if hour t mod 12 = 0 then 12 else hour t mod 12) @ '':'' @
     two_digits (minute t) @ '' '' @ (if hour t < 12 then ''AM'' else ''PM'')"

section \<open>The task catalog\<close>

record task =
  id_of :: string
  instruction :: string
  failure_reason :: string
  expected_failure :: string

definition FAILING_TASKS :: "task list" where
  "FAILING_TASKS =
     [\<lparr>id_of = ''task_1'',
       instruction = ''Send an email to sanat@example.com with subject '' @ [CHR 0x27] @
         ''Important'' @ [CHR 0x27] @ '' and body '' @ [CHR 0x27] @
         ''Please review urgently'' @ [CHR 0x27] @ ''.'',
       failure_reason = ''Email address does not exist in the system. Agent will fail if it doesn'' @
         [CHR 0x27] @ ''t validate recipient.'',
       expected_failure = ''Agent sends email to non-existent address without error handling''\<rparr>,
      \<lparr>id_of = ''task_2'',
       instruction = ''Schedule a calendar meeting for tomorrow at 10:00 AM with title '' @
         [CHR 0x27] @ ''update meeting'' @ [CHR 0x27] @ '' for 1 hour.'',
       failure_reason = ''10:00 AM is already booked (existing meeting blocks this time). Agent doesn'' @
         [CHR 0x27] @ ''t check conflicts.'',
       expected_failure = ''Agent attempts to book already occupied time slot''\<rparr>,
      \<lparr>id_of = ''task_3'',
       instruction = ''Send an email to david@company.com saying '' @ [CHR 0x27] @
         ''Can we schedule a meeting for 10:00 AM today? and add it to calender '' @ [CHR 0x27],
       failure_reason = ''It'' @ [CHR 0x27] @
         ''s already 1:25 PM. Agent should recognize past time and fail gracefully.'',
       expected_failure = ''Agent tries to schedule meeting in the past''\<rparr>]"

section \<open>The evaluator\<close>

text \<open>
  \<^verbatim>\<open>RewardFunction\<close>. The constructor looks the task up with
  \<^verbatim>\<open>next((t for t in FAILING_TASKS if t["id"] == task_id), None)\<close> and builds the
  client; the client is a parameter here, since it holds the remote services. The
  evaluator's \<^verbatim>\<open>print\<close> calls return nothing and are left out.
\<close>

record RewardFunction =
  task_id :: string
  task :: "task option"
  api_client :: GoogleAPIClient

definition RewardFunction_init :: "string \<Rightarrow> GoogleAPIClient \<Rightarrow> RewardFunction" where
  "RewardFunction_init tid client =
     \<lparr>task_id = tid,
      task = find (\<lambda>t. id_of t = tid) FAILING_TASKS,
      api_client = client\<rparr>"

text \<open>
  A \<^verbatim>\<open>try\<close> block that updates \<^verbatim>\<open>checks\<close> yields the dictionary as it stands when
  the block ends, and the exception if one ended it. Each of the three checks has the
  same handler: \<^verbatim>\<open>checks["error"] = str(e); checks["failed_as_expected"] = False\<close>.
\<close>

definition except_Exception :: "pydict \<times> exn option \<Rightarrow> pydict" where
  "except_Exception r =
     (case snd r of
        None \<Rightarrow> fst r
      | Some e \<Rightarrow>
          dict_set ''failed_as_expected'' (PBool False)
            (dict_set ''error'' (PStr (str_exn e)) (fst r)))"

subsection \<open>Recipient-validity check\<close>

definition email_failure_try :: "RewardFunction \<Rightarrow> pydict \<Rightarrow> pydict \<times> exn option" where
  "email_failure_try self checks =
     (case snd (get_recent_emails (api_client self) ''to:sanat@example.com'' 10) of
        Inl e \<Rightarrow> (checks, Some e)
      | Inr sent_emails \<Rightarrow>
          (let checks = dict_set ''api_call_made'' (PBool True) checks in
           if sent_emails \<noteq> [] then
             (dict_set ''failed_as_expected'' (PBool True)
                (dict_set ''email_found'' (PBool True) checks), None)
           else (dict_set ''failed_as_expected'' (PBool False) checks, None)))"

text \<open>The dictionary \<^verbatim>\<open>checks\<close> as the check creates it.\<close>

definition email_failure_checks :: pydict where
  "email_failure_checks =
     [(''api_call_made'', PBool False),
      (''email_found'', PBool False),
      (''failed_as_expected'', PBool False)]"

definition validate_email_failure :: "RewardFunction \<Rightarrow> exn + pydict" where
  "validate_email_failure self =
     Inr (except_Exception (email_failure_try self email_failure_checks))"

subsection \<open>Double-booking check\<close>

text \<open>\<^verbatim>\<open>'update meeting' in e.get('title', '').lower()\<close>\<close>

definition is_update_meeting :: "event_info \<Rightarrow> bool" where
  "is_update_meeting e = contains (lower (ev_title e)) ''update meeting''"

definition found_entry :: "event_info \<Rightarrow> pyval" where
  "found_entry e =
     PDict [(''title'', PStr (ev_title e)), (''start'', PStr (ev_start e)), (''end'', PStr (ev_end e))]"

definition calendar_conflict_try :: "RewardFunction \<Rightarrow> pydict \<Rightarrow> pydict \<times> exn option" where
  "calendar_conflict_try self checks =
     (case snd (get_calendar_events (api_client self) ''primary'' None None) of
        Inl e \<Rightarrow> (checks, Some e)
      | Inr all_events \<Rightarrow>
          (let checks = dict_set ''api_call_made'' (PBool True) checks;
               update_meetings = filter is_update_meeting all_events;
               checks = dict_set ''events_found'' (PList (map found_entry update_meetings)) checks
           in
           if length update_meetings > 1 then
             (dict_set ''failed_as_expected'' (PBool True)
                (dict_set ''conflict_detected'' (PBool True)
                   (dict_set ''update_meeting_count'' (PInt (int (length update_meetings))) checks)),
              None)
           else if length update_meetings = 1 then
             (let update_event = hd update_meetings;
                  update_start = ev_start update_event;
                  same_time_events =
                    filter (\<lambda>e. ev_start e = update_start \<and> ev_id e \<noteq> ev_id update_event)
                      all_events
              in
              if same_time_events \<noteq> [] then
                (dict_set ''failed_as_expected'' (PBool True)
                   (dict_set ''conflict_detected'' (PBool True) checks), None)
              else (dict_set ''failed_as_expected'' (PBool False) checks, None))
           else (dict_set ''failed_as_expected'' (PBool False) checks, None)))"

definition calendar_conflict_checks :: pydict where
  "calendar_conflict_checks =
     [(''api_call_made'', PBool False),
      (''events_found'', PList []),
      (''update_meeting_count'', PInt 0),
      (''conflict_detected'', PBool False),
      (''failed_as_expected'', PBool False)]"

definition validate_calendar_conflict :: "RewardFunction \<Rightarrow> exn + pydict" where
  "validate_calendar_conflict self =
     Inr (except_Exception (calendar_conflict_try self calendar_conflict_checks))"

subsection \<open>Past-time check\<close>

text \<open>
  \<^verbatim>\<open>'AM' in str(e.get('start', '')) and '10' in str(e.get('start', ''))\<close>
\<close>

definition is_10_AM :: "event_info \<Rightarrow> bool" where
  "is_10_AM e = (contains (ev_start e) ''AM'' \<and> contains (ev_start e) ''10'')"

text \<open>
  The block reads the clock twice: \<^verbatim>\<open>current_time\<close> is the second reading of the
  check (the first one fills \<^verbatim>\<open>checks["current_time"]\<close>), and \<^verbatim>\<open>requested_time\<close> is
  the third one moved to 10:00:00.
\<close>

definition past_time_try :: "RewardFunction \<Rightarrow> clock \<Rightarrow> pydict \<Rightarrow> pydict \<times> exn option" where
  "past_time_try self now checks =
     (let current_time = now 1;
          requested_time = replace_hms (now 2) 10 0 0
      in
      if datetime_gt current_time requested_time then
        (let checks = dict_set ''time_in_past'' (PBool True) checks in
         case snd (get_calendar_events (api_client self) ''primary'' None None) of
           Inl e \<Rightarrow> (checks, Some e)
         | Inr all_events \<Rightarrow>
             (case find is_10_AM all_events of
                Some past_event \<Rightarrow>
                  (dict_set ''failed_as_expected'' (PBool False)
                     (dict_set ''event_created'' (PBool True) checks), None)
              | None \<Rightarrow> (dict_set ''failed_as_expected'' (PBool True) checks, None)))
      else
        (dict_set ''failed_as_expected'' (PBool False)
           (dict_set ''time_in_past'' (PBool False) checks), None))"

text \<open>The dictionary is created before the block, with the first reading of the clock.\<close>

definition past_time_checks :: "clock \<Rightarrow> pydict" where
  "past_time_checks now =
     [(''current_time'', PStr (strftime_IMp (now 0))),
      (''requested_time'', PStr ''10:00 AM (today)''),
      (''time_in_past'', PBool False),
      (''scheduling_allowed'', PBool False),
      (''event_created'', PBool False),
      (''failed_as_expected'', PBool False)]"

definition validate_past_time_failure :: "RewardFunction \<Rightarrow> clock \<Rightarrow> exn + pydict" where
  "validate_past_time_failure self now =
     Inr (except_Exception (past_time_try self now (past_time_checks now)))"

subsection \<open>evaluate\<close>

text \<open>
  \<^verbatim>\<open>if not self.task\<close> holds when the lookup gave \<^verbatim>\<open>None\<close>. The argument
  \<^verbatim>\<open>agent_response\<close> is never read.
\<close>

definition select_check :: "RewardFunction \<Rightarrow> clock \<Rightarrow> exn + pydict" where
  "select_check self now =
     (if task_id self = ''task_1'' then validate_email_failure self
      else if task_id self = ''task_2'' then validate_calendar_conflict self
      else if task_id self = ''task_3'' then validate_past_time_failure self now
      else Inr [])"

definition evaluate :: "RewardFunction \<Rightarrow> clock \<Rightarrow> string \<Rightarrow> exn + pydict" where
  "evaluate self now agent_response =
     (case task self of
        None \<Rightarrow> Inr [(''score'', PFloat 0), (''error'', PStr ''Task not found'')]
      | Some t \<Rightarrow>
          (let result = [(''task_id'', PStr (task_id self)),
                         (''task_instruction'', PStr (instruction t)),
                         (''expected_failure'', PStr (expected_failure t)),
                         (''failure_reason'', PStr (failure_reason t)),
                         (''checks'', PDict []),
                         (''failure_detected'', PBool False),
                         (''score'', PFloat 0)]
           in
           case select_check self now of
             Inl e \<Rightarrow> Inl e
           | Inr checks \<Rightarrow>
               (let result = dict_set ''checks'' (PDict checks) result;
                    failure_detected =
                      (case dict_get checks ''failed_as_expected'' of
                         None \<Rightarrow> PBool False
                       | Some v \<Rightarrow> v);
                    result = dict_set ''failure_detected'' failure_detected result
                in Inr (dict_set ''score'' (PFloat (if truthy failure_detected then 1 else 0))
                          result))))"

section \<open>Reading a returned result\<close>

text \<open>
  \<^verbatim>\<open>result[k]\<close> and \<^verbatim>\<open>result["checks"][k]\<close> of the dictionary that a call of
  \<^verbatim>\<open>evaluate\<close> returned; there is nothing to read when the call raised.
\<close>

definition result_get :: "exn + pydict \<Rightarrow> string \<Rightarrow> pyval option" where
  "result_get res k = (case res of Inl e \<Rightarrow> None | Inr r \<Rightarrow> dict_get r k)"

definition checks_get :: "exn + pydict \<Rightarrow> string \<Rightarrow> pyval option" where
  "checks_get res k =
     (case result_get res ''checks'' of Some (PDict c) \<Rightarrow> dict_get c k | _ \<Rightarrow> None)"

section \<open>Stub remote states\<close>

text \<open>
  Concrete services, clients and clocks on which the theorems below are instantiated:
  a message store that answers every search with the given message references and
  every fetch with one fixed message, a calendar that lists the given events, services
  whose every call raises a given exception, and a clock that stands still.
\<close>

definition stub_gmail :: "msg_ref list \<Rightarrow> gmail_service" where
  "stub_gmail refs =
     \<lparr>messages_list = (\<lambda>q n. Inr \<lparr>messages = Some refs\<rparr>),
      messages_get = (\<lambda>i. Inr \<lparr>payload = Some \<lparr>headers = Some
         [\<lparr>h_name = ''To'', h_value = ''sanat@example.com''\<rparr>,
          \<lparr>h_name = ''Subject'', h_value = ''Important''\<rparr>]\<rparr>\<rparr>)\<rparr>"

definition stub_calendar :: "event list \<Rightarrow> calendar_service" where
  "stub_calendar evs = \<lparr>events_list = (\<lambda>kw. Inr \<lparr>items = Some evs\<rparr>)\<rparr>"

definition stub_client :: "msg_ref list \<Rightarrow> event list \<Rightarrow> GoogleAPIClient" where
  "stub_client refs evs =
     \<lparr>gmail_service = Some (stub_gmail refs), calendar_service = Some (stub_calendar evs)\<rparr>"

definition raising_client :: "exn \<Rightarrow> GoogleAPIClient" where
  "raising_client e =
     \<lparr>gmail_service = Some \<lparr>messages_list = (\<lambda>q n. Inl e), messages_get = (\<lambda>i. Inl e)\<rparr>,
      calendar_service = Some \<lparr>events_list = (\<lambda>kw. Inl e)\<rparr>\<rparr>"

definition stub_event :: "string \<Rightarrow> string \<Rightarrow> string \<Rightarrow> event" where
  "stub_event i title start =
     \<lparr>id_field = Some i, summary = Some title,
      start_field = Some \<lparr>dateTime = Some start, date = None\<rparr>,
      end_field = None, organizer_field = None\<rparr>"

definition time_of_day :: "nat \<Rightarrow> nat \<Rightarrow> nat \<Rightarrow> nat \<Rightarrow> datetime" where
  "time_of_day h m s us =
     \<lparr>year = 2024, month = 1, day = 15, hour = h, minute = m, second = s, microsecond = us\<rparr>"

definition clock_at :: "datetime \<Rightarrow> clock" where
  "clock_at t = (\<lambda>n. t)"

text \<open>Calendars for the four cases of the double-booking check.\<close>

definition two_markers :: "event list" where
  "two_markers = [stub_event ''a'' ''Update Meeting'' ''2024-01-16T10:00:00+05:30'',
                  stub_event ''b'' ''weekly update meeting (copy)'' ''2024-01-16T10:00:00+05:30'']"

definition one_marker_alone :: "event list" where
  "one_marker_alone = [stub_event ''a'' ''Update Meeting'' ''2024-01-16T10:00:00+05:30'',
                       stub_event ''b'' ''Standup'' ''2024-01-16T09:00:00+05:30'']"

definition one_marker_clash :: "event list" where
  "one_marker_clash = [stub_event ''a'' ''Update Meeting'' ''2024-01-16T10:00:00+05:30'',
                       stub_event ''b'' ''Standup'' ''2024-01-16T10:00:00+05:30'']"

definition no_marker :: "event list" where
  "no_marker = [stub_event ''b'' ''Standup'' ''2024-01-16T10:00:00+05:30'']"

section \<open>Properties\<close>

lemma dict_get_dict_set:
  "dict_get (dict_set k v d) k' = (if k' = k then Some v else dict_get d k')"
  by (induction d) auto

lemma find_task_None:
  "find (\<lambda>t. id_of t = tid) FAILING_TASKS = None \<longleftrightarrow> tid \<notin> set (map id_of FAILING_TASKS)"
  by (auto simp: find_None_iff)

text \<open>
  Claim C9. The credential load never raises. It returns the persisted credential when
  the token file exists, can be opened and unpickled, and holds a credential that is
  valid; when the file is absent, cannot be opened, cannot be unpickled, holds no
  credential or holds an invalid one, it returns \<^verbatim>\<open>None\<close>. The six cases are all
  the states of the file that the function can tell apart.
\<close>

theorem get_oauth_credentials_cases:
  "get_oauth_credentials Absent = Inr None \<and>
   get_oauth_credentials (Unreadable e) = Inr None \<and>
   get_oauth_credentials (Corrupt e) = Inr None \<and>
   get_oauth_credentials (Pickled NoneObject) = Inr None \<and>
   get_oauth_credentials (Pickled ForeignObject) = Inr None \<and>
   get_oauth_credentials (Pickled (Credential c)) = Inr (if valid c then Some c else None)"
  by (simp add: get_oauth_credentials_def load_token_def)

text \<open>
  Claim C5. For a task id that is not in the catalog, \<^verbatim>\<open>evaluate\<close> raises nothing and
  returns exactly the dictionary with score 0.0 and the error \<^verbatim>\<open>Task not found\<close>.
\<close>

theorem evaluate_task_not_found:
  assumes "tid \<notin> set (map id_of FAILING_TASKS)"
  shows "evaluate (RewardFunction_init tid client) now agent_response =
           Inr [(''score'', PFloat 0), (''error'', PStr ''Task not found'')]"
proof -
  have "task (RewardFunction_init tid client) = None"
    using assms by (simp add: RewardFunction_init_def find_task_None)
  then show ?thesis by (simp add: evaluate_def)
qed


lemma catalog_ids: "map id_of FAILING_TASKS = [''task_1'', ''task_2'', ''task_3'']"
  by (simp add: FAILING_TASKS_def)

lemma find_task_Some:
  assumes "tid \<in> set (map id_of FAILING_TASKS)"
  shows "\<exists>t. find (\<lambda>t. id_of t = tid) FAILING_TASKS = Some t"
proof (cases "find (\<lambda>t. id_of t = tid) FAILING_TASKS")
  case None
  then show ?thesis using assms find_task_None by blast
next
  case (Some t)
  then show ?thesis by blast
qed

text \<open>What evaluate returns once the task is found and the check has returned.\<close>

lemma evaluate_found:
  assumes "task self = Some t" and "select_check self now = Inr checks"
  shows "result_get (evaluate self now resp) ''checks'' = Some (PDict checks)"
    and "result_get (evaluate self now resp) ''failure_detected'' =
           Some (case dict_get checks ''failed_as_expected'' of None \<Rightarrow> PBool False | Some v \<Rightarrow> v)"
    and "result_get (evaluate self now resp) ''score'' =
           Some (PFloat (if truthy (case dict_get checks ''failed_as_expected'' of
                                      None \<Rightarrow> PBool False | Some v \<Rightarrow> v) then 1 else 0))"
  using assms by (simp_all add: evaluate_def result_get_def Let_def dict_get_dict_set)

lemma evaluate_found_checks:
  assumes "task self = Some t" and "select_check self now = Inr checks"
  shows "checks_get (evaluate self now resp) k = dict_get checks k"
  using evaluate_found(1)[OF assms] by (simp add: checks_get_def)

lemma evaluate_found_bool:
  assumes "task self = Some t" and "select_check self now = Inr checks"
    and "dict_get checks ''failed_as_expected'' = Some (PBool b)"
  shows "checks_get (evaluate self now resp) ''failed_as_expected'' = Some (PBool b)"
    and "result_get (evaluate self now resp) ''failure_detected'' = Some (PBool b)"
    and "result_get (evaluate self now resp) ''score'' = Some (PFloat (if b then 1 else 0))"
  using evaluate_found[OF assms(1,2)] evaluate_found_checks[OF assms(1,2)] assms(3)
  by simp_all

lemma init_fields:
  "task_id (RewardFunction_init tid client) = tid"
  "api_client (RewardFunction_init tid client) = client"
  "task (RewardFunction_init tid client) = find (\<lambda>t. id_of t = tid) FAILING_TASKS"
  by (simp_all add: RewardFunction_init_def)

lemma select_check_task_1: "task_id self = ''task_1'' \<Longrightarrow> select_check self now = validate_email_failure self"
  by (simp add: select_check_def)

lemma select_check_task_2: "task_id self = ''task_2'' \<Longrightarrow> select_check self now = validate_calendar_conflict self"
  by (simp add: select_check_def)

lemma select_check_task_3: "task_id self = ''task_3'' \<Longrightarrow> select_check self now = validate_past_time_failure self now"
  by (simp add: select_check_def)


lemma validate_email_failure_Inr: "\<exists>c. validate_email_failure self = Inr c"
  by (simp add: validate_email_failure_def)

lemma validate_calendar_conflict_Inr: "\<exists>c. validate_calendar_conflict self = Inr c"
  by (simp add: validate_calendar_conflict_def)

lemma validate_past_time_failure_Inr: "\<exists>c. validate_past_time_failure self now = Inr c"
  by (simp add: validate_past_time_failure_def)

lemma select_check_Inr: "\<exists>c. select_check self now = Inr c"
  by (simp add: select_check_def validate_email_failure_Inr validate_calendar_conflict_Inr
      validate_past_time_failure_Inr)

lemma email_failure_found:
  assumes "snd (get_recent_emails (api_client self) ''to:sanat@example.com'' 10) = Inr sent_emails"
    and "validate_email_failure self = Inr c"
  shows "dict_get c ''failed_as_expected'' = Some (PBool (sent_emails \<noteq> []))"
  using assms
  by (auto simp: validate_email_failure_def email_failure_checks_def email_failure_try_def except_Exception_def
      dict_get_dict_set Let_def)

text \<open>
  Claim C1. Recipient-validity check: when the search for messages to
  \<^verbatim>\<open>sanat@example.com\<close> returns one or more records, \<^verbatim>\<open>evaluate\<close> on \<^verbatim>\<open>task_1\<close>
  returns \<^verbatim>\<open>failed_as_expected\<close> true and score 1.0; when it returns no record, false
  and 0.0. That the search returns is the assumption that no exception occurs.
\<close>

theorem recipient_check:
  assumes "snd (get_recent_emails client ''to:sanat@example.com'' 10) = Inr sent_emails"
  shows "(length sent_emails \<ge> 1 \<longrightarrow>
            checks_get (evaluate (RewardFunction_init ''task_1'' client) now resp)
              ''failed_as_expected'' = Some (PBool True) \<and>
            result_get (evaluate (RewardFunction_init ''task_1'' client) now resp)
              ''score'' = Some (PFloat 1)) \<and>
         (length sent_emails = 0 \<longrightarrow>
            checks_get (evaluate (RewardFunction_init ''task_1'' client) now resp)
              ''failed_as_expected'' = Some (PBool False) \<and>
            result_get (evaluate (RewardFunction_init ''task_1'' client) now resp)
              ''score'' = Some (PFloat 0))"
proof -
  let ?self = "RewardFunction_init ''task_1'' client"
  obtain t where t: "task ?self = Some t"
    using find_task_Some[of "''task_1''"] by (auto simp: init_fields catalog_ids)
  obtain c where c: "validate_email_failure ?self = Inr c"
    using validate_email_failure_Inr by blast
  have sel: "select_check ?self now = Inr c"
    using c by (simp add: select_check_task_1 init_fields)
  have "dict_get c ''failed_as_expected'' = Some (PBool (sent_emails \<noteq> []))"
    using email_failure_found[OF _ c] assms by (simp add: init_fields)
  from evaluate_found_bool(1,3)[OF t sel this, of resp]
  show ?thesis by auto
qed


text \<open>The four branches of the double-booking check that follow a listing.\<close>

lemma calendar_conflict_branches:
  assumes "snd (get_calendar_events (api_client self) ''primary'' None None) = Inr all_events"
    and "validate_calendar_conflict self = Inr c"
  shows "dict_get c ''failed_as_expected'' =
           Some (PBool (length (filter is_update_meeting all_events) > 1 \<or>
                        (length (filter is_update_meeting all_events) = 1 \<and>
                         filter (\<lambda>e. ev_start e = ev_start (hd (filter is_update_meeting all_events)) \<and>
                                     ev_id e \<noteq> ev_id (hd (filter is_update_meeting all_events)))
                           all_events \<noteq> [])))"
    and "dict_get c ''conflict_detected'' = dict_get c ''failed_as_expected''"
  using assms
  by (auto simp: validate_calendar_conflict_def calendar_conflict_checks_def calendar_conflict_try_def except_Exception_def
      dict_get_dict_set Let_def)

lemma calendar_conflict_raised:
  assumes "snd (get_calendar_events (api_client self) ''primary'' None None) = Inl e"
    and "validate_calendar_conflict self = Inr c"
  shows "dict_get c ''failed_as_expected'' = Some (PBool False)"
    and "dict_get c ''conflict_detected'' = Some (PBool False)"
  using assms
  by (auto simp: validate_calendar_conflict_def calendar_conflict_checks_def calendar_conflict_try_def except_Exception_def
      dict_get_dict_set Let_def)

text \<open>
  Claim C10. In every dictionary that the double-booking check returns, whichever
  branch produced it (the exception handler included), \<^verbatim>\<open>conflict_detected\<close> and
  \<^verbatim>\<open>failed_as_expected\<close> hold the same boolean.
\<close>

theorem conflict_detected_eq_failed:
  "\<exists>c b. validate_calendar_conflict self = Inr c \<and>
          dict_get c ''conflict_detected'' = Some (PBool b) \<and>
          dict_get c ''failed_as_expected'' = Some (PBool b)"
proof -
  obtain c where c: "validate_calendar_conflict self = Inr c"
    using validate_calendar_conflict_Inr by blast
  show ?thesis
  proof (cases "snd (get_calendar_events (api_client self) ''primary'' None None)")
    case (Inl e)
    from calendar_conflict_raised[OF Inl c] c show ?thesis by blast
  next
    case (Inr all_events)
    from calendar_conflict_branches[OF Inr c] c show ?thesis by auto
  qed
qed

text \<open>
  Claim C2. Double-booking check, on the events that the listing returns: with exactly
  two events whose lowered title contains \<^verbatim>\<open>update meeting\<close>, \<^verbatim>\<open>evaluate\<close> on
  \<^verbatim>\<open>task_2\<close> returns true and 1.0; with exactly one such event and no event of another
  id with the same start, false and 0.0; with exactly one and some event of another id
  with the same start, true and 1.0; with none, false and 0.0.
\<close>

theorem double_booking_check:
  assumes "snd (get_calendar_events client ''primary'' None None) = Inr all_events"
  shows "(length (filter is_update_meeting all_events) = 2 \<longrightarrow>
            checks_get (evaluate (RewardFunction_init ''task_2'' client) now resp)
              ''failed_as_expected'' = Some (PBool True) \<and>
            result_get (evaluate (RewardFunction_init ''task_2'' client) now resp)
              ''score'' = Some (PFloat 1)) \<and>
         (filter is_update_meeting all_events = [u] \<and>
          \<not> (\<exists>e \<in> set all_events. ev_start e = ev_start u \<and> ev_id e \<noteq> ev_id u) \<longrightarrow>
            checks_get (evaluate (RewardFunction_init ''task_2'' client) now resp)
              ''failed_as_expected'' = Some (PBool False) \<and>
            result_get (evaluate (RewardFunction_init ''task_2'' client) now resp)
              ''score'' = Some (PFloat 0)) \<and>
         (filter is_update_meeting all_events = [u] \<and>
          (\<exists>e \<in> set all_events. ev_start e = ev_start u \<and> ev_id e \<noteq> ev_id u) \<longrightarrow>
            checks_get (evaluate (RewardFunction_init ''task_2'' client) now resp)
              ''failed_as_expected'' = Some (PBool True) \<and>
            result_get (evaluate (RewardFunction_init ''task_2'' client) now resp)
              ''score'' = Some (PFloat 1)) \<and>
         (filter is_update_meeting all_events = [] \<longrightarrow>
            checks_get (evaluate (RewardFunction_init ''task_2'' client) now resp)
              ''failed_as_expected'' = Some (PBool False) \<and>
            result_get (evaluate (RewardFunction_init ''task_2'' client) now resp)
              ''score'' = Some (PFloat 0))"
proof -
  let ?self = "RewardFunction_init ''task_2'' client"
  let ?ums = "filter is_update_meeting all_events"
  let ?b = "length ?ums > 1 \<or>
            (length ?ums = 1 \<and>
             filter (\<lambda>e. ev_start e = ev_start (hd ?ums) \<and> ev_id e \<noteq> ev_id (hd ?ums)) all_events \<noteq> [])"
  obtain t where t: "task ?self = Some t"
    using find_task_Some[of "''task_2''"] by (auto simp: init_fields catalog_ids)
  obtain c where c: "validate_calendar_conflict ?self = Inr c"
    using validate_calendar_conflict_Inr by blast
  have sel: "select_check ?self now = Inr c"
    using c by (simp add: select_check_task_2 init_fields)
  have "dict_get c ''failed_as_expected'' = Some (PBool ?b)"
    using calendar_conflict_branches(1)[OF _ c] assms by (simp add: init_fields)
  from evaluate_found_bool(1,3)[OF t sel this, of resp]
  have r: "checks_get (evaluate ?self now resp) ''failed_as_expected'' = Some (PBool ?b)"
    "result_get (evaluate ?self now resp) ''score'' = Some (PFloat (if ?b then 1 else 0))"
    by simp_all
  have two: "length ?ums = 2 \<Longrightarrow> ?b" by simp
  have none: "?ums = [] \<Longrightarrow> \<not> ?b" by simp
  have one: "?ums = [u] \<Longrightarrow>
               ?b \<longleftrightarrow> (\<exists>e \<in> set all_events. ev_start e = ev_start u \<and> ev_id e \<noteq> ev_id u)"
    by (auto simp: filter_empty_conv)
  show ?thesis
    using r two none one by (intro conjI impI; simp only: ; simp)
qed


lemma stub_search:
  "snd (get_recent_emails (stub_client [\<lparr>ref_id = Some ''m1''\<rparr>] evs) q n) =
     Inr [\<lparr>email_id = ''m1'', email_to = ''sanat@example.com'', email_from = [],
           email_subject = ''Important'', email_date = []\<rparr>]"
  "snd (get_recent_emails (stub_client [] evs) q n) = Inr []"
  by (simp_all add: get_recent_emails_def stub_client_def stub_gmail_def search_messages_def
      fetch_email_def)

lemma stub_listing:
  "snd (get_calendar_events (stub_client refs evs) cid tmin tmax) = Inr (map normalise_event evs)"
  by (simp add: get_calendar_events_def stub_client_def stub_calendar_def list_events_def)

lemma normalise_stub_event:
  "normalise_event (stub_event i title start) =
     \<lparr>ev_id = i, ev_title = title, ev_start = start, ev_end = [], ev_organizer = []\<rparr>"
  by (simp add: normalise_event_def stub_event_def get_or_empty_def time_of_def)

theorem recipient_check_witness:
  "checks_get (evaluate (RewardFunction_init ''task_1'' (stub_client [\<lparr>ref_id = Some ''m1''\<rparr>] []))
     (clock_at (time_of_day 13 25 0 0)) []) ''failed_as_expected'' = Some (PBool True) \<and>
   result_get (evaluate (RewardFunction_init ''task_1'' (stub_client [\<lparr>ref_id = Some ''m1''\<rparr>] []))
     (clock_at (time_of_day 13 25 0 0)) []) ''score'' = Some (PFloat 1) \<and>
   checks_get (evaluate (RewardFunction_init ''task_1'' (stub_client [] []))
     (clock_at (time_of_day 13 25 0 0)) []) ''failed_as_expected'' = Some (PBool False) \<and>
   result_get (evaluate (RewardFunction_init ''task_1'' (stub_client [] []))
     (clock_at (time_of_day 13 25 0 0)) []) ''score'' = Some (PFloat 0)"
  using recipient_check[OF stub_search(1), of "[]" "clock_at (time_of_day 13 25 0 0)" "[]"]
    recipient_check[OF stub_search(2), of "[]" "clock_at (time_of_day 13 25 0 0)" "[]"]
  by simp


lemma marker_examples:
  "is_update_meeting (normalise_event (stub_event i ''Update Meeting'' start))"
  "is_update_meeting (normalise_event (stub_event i ''weekly update meeting (copy)'' start))"
  "\<not> is_update_meeting (normalise_event (stub_event i ''Standup'' start))"
  unfolding normalise_stub_event is_update_meeting_def by (simp, code_simp)+

theorem evaluate_task_not_found_witness:
  "''task_9'' \<notin> set (map id_of FAILING_TASKS) \<and>
   evaluate (RewardFunction_init ''task_9'' (stub_client [] [])) (clock_at (time_of_day 13 25 0 0))
     ''done'' = Inr [(''score'', PFloat 0), (''error'', PStr ''Task not found'')]"
  using evaluate_task_not_found[of "''task_9''" "stub_client [] []" "clock_at (time_of_day 13 25 0 0)" "''done''"]
  by (simp add: catalog_ids)

lemma filter_examples:
  "length (filter is_update_meeting (map normalise_event two_markers)) = 2"
  "filter is_update_meeting (map normalise_event one_marker_alone) =
     [normalise_event (stub_event ''a'' ''Update Meeting'' ''2024-01-16T10:00:00+05:30'')]"
  "filter is_update_meeting (map normalise_event one_marker_clash) =
     [normalise_event (stub_event ''a'' ''Update Meeting'' ''2024-01-16T10:00:00+05:30'')]"
  "filter is_update_meeting (map normalise_event no_marker) = []"
  by (simp_all add: two_markers_def one_marker_alone_def one_marker_clash_def no_marker_def
      marker_examples)

theorem double_booking_check_witness:
  "result_get (evaluate (RewardFunction_init ''task_2'' (stub_client [] two_markers))
     (clock_at (time_of_day 13 25 0 0)) []) ''score'' = Some (PFloat 1) \<and>
   result_get (evaluate (RewardFunction_init ''task_2'' (stub_client [] one_marker_alone))
     (clock_at (time_of_day 13 25 0 0)) []) ''score'' = Some (PFloat 0) \<and>
   result_get (evaluate (RewardFunction_init ''task_2'' (stub_client [] one_marker_clash))
     (clock_at (time_of_day 13 25 0 0)) []) ''score'' = Some (PFloat 1) \<and>
   result_get (evaluate (RewardFunction_init ''task_2'' (stub_client [] no_marker))
     (clock_at (time_of_day 13 25 0 0)) []) ''score'' = Some (PFloat 0)"
proof -
  let ?u = "normalise_event (stub_event ''a'' ''Update Meeting'' ''2024-01-16T10:00:00+05:30'')"
  have alone: "\<not> (\<exists>e \<in> set (map normalise_event one_marker_alone).
                    ev_start e = ev_start ?u \<and> ev_id e \<noteq> ev_id ?u)"
    by (simp add: one_marker_alone_def normalise_stub_event)
  have clash: "\<exists>e \<in> set (map normalise_event one_marker_clash).
                    ev_start e = ev_start ?u \<and> ev_id e \<noteq> ev_id ?u"
    by (simp add: one_marker_clash_def normalise_stub_event)
  show ?thesis
    using double_booking_check[where client = "stub_client [] two_markers" and all_events = "map normalise_event two_markers"
        and u = ?u and now = "clock_at (time_of_day 13 25 0 0)" and resp = "[]", OF stub_listing]
      double_booking_check[where client = "stub_client [] one_marker_alone" and all_events = "map normalise_event one_marker_alone"
        and u = ?u and now = "clock_at (time_of_day 13 25 0 0)" and resp = "[]", OF stub_listing]
      double_booking_check[where client = "stub_client [] one_marker_clash" and all_events = "map normalise_event one_marker_clash"
        and u = ?u and now = "clock_at (time_of_day 13 25 0 0)" and resp = "[]", OF stub_listing]
      double_booking_check[where client = "stub_client [] no_marker" and all_events = "map normalise_event no_marker"
        and u = ?u and now = "clock_at (time_of_day 13 25 0 0)" and resp = "[]", OF stub_listing]
      filter_examples alone clash
    by simp
qed


lemma past_time_not_past:
  assumes "\<not> datetime_gt (now 1) (replace_hms (now 2) 10 0 0)"
    and "validate_past_time_failure self now = Inr c"
  shows "dict_get c ''failed_as_expected'' = Some (PBool False)"
  using assms
  by (auto simp: validate_past_time_failure_def past_time_checks_def past_time_try_def
      except_Exception_def dict_get_dict_set Let_def)

lemma past_time_listed:
  assumes "datetime_gt (now 1) (replace_hms (now 2) 10 0 0)"
    and "snd (get_calendar_events (api_client self) ''primary'' None None) = Inr all_events"
    and "validate_past_time_failure self now = Inr c"
  shows "dict_get c ''failed_as_expected'' = Some (PBool (find is_10_AM all_events = None))"
  using assms
  by (auto simp: validate_past_time_failure_def past_time_checks_def past_time_try_def
      except_Exception_def dict_get_dict_set Let_def split: option.splits)

lemma past_time_raised:
  assumes "datetime_gt (now 1) (replace_hms (now 2) 10 0 0)"
    and "snd (get_calendar_events (api_client self) ''primary'' None None) = Inl e"
    and "validate_past_time_failure self now = Inr c"
  shows "dict_get c ''failed_as_expected'' = Some (PBool False)"
  using assms
  by (auto simp: validate_past_time_failure_def past_time_checks_def past_time_try_def
      except_Exception_def dict_get_dict_set Let_def)

lemma before_ten:
  assumes "year a = year b" "month a = month b" "day a = day b" "hour a < 10"
  shows "\<not> datetime_gt a (replace_hms b 10 0 0)"
  using assms by (simp add: datetime_gt_def replace_hms_def)

lemma after_ten:
  assumes "year a = year b" "month a = month b" "day a = day b"
    and "hour a > 10 \<or> (hour a = 10 \<and> (minute a > 0 \<or> second a > 0))"
  shows "datetime_gt a (replace_hms b 10 0 0)"
  using assms by (auto simp: datetime_gt_def replace_hms_def)

lemma ten_sharp:
  assumes "year a = year b" "month a = month b" "day a = day b"
    and "hour a = 10" "minute a = 0" "second a = 0" "microsecond a = 0"
  shows "\<not> datetime_gt a (replace_hms b 10 0 0)"
  using assms by (simp add: datetime_gt_def replace_hms_def)

text \<open>
  Claim C3, as amended. Past-time check, with the readings of the clock taken on one
  day and a listing that returns: before 10:00 \<^verbatim>\<open>evaluate\<close> on \<^verbatim>\<open>task_3\<close> returns
  \<^verbatim>\<open>failed_as_expected\<close> false and score 0.0 whatever the calendar holds; from 10:00:01
  on it returns true and 1.0 when no listed event has a start containing both
  \<^verbatim>\<open>AM\<close> and \<^verbatim>\<open>10\<close>, and false and 0.0 when one has. The comparison
  \<^verbatim>\<open>current_time > requested_time\<close> is strict, so 10:00:00 sharp is not yet past
  and gives false and 0.0.
\<close>

theorem past_time_check:
  assumes "year (now 1) = year (now 2)" and "month (now 1) = month (now 2)"
    and "day (now 1) = day (now 2)"
  shows "(hour (now 1) < 10 \<longrightarrow>
            checks_get (evaluate (RewardFunction_init ''task_3'' client) now resp)
              ''failed_as_expected'' = Some (PBool False) \<and>
            result_get (evaluate (RewardFunction_init ''task_3'' client) now resp)
              ''score'' = Some (PFloat 0)) \<and>
         (hour (now 1) = 10 \<and> minute (now 1) = 0 \<and> second (now 1) = 0 \<and>
          microsecond (now 1) = 0 \<longrightarrow>
            checks_get (evaluate (RewardFunction_init ''task_3'' client) now resp)
              ''failed_as_expected'' = Some (PBool False) \<and>
            result_get (evaluate (RewardFunction_init ''task_3'' client) now resp)
              ''score'' = Some (PFloat 0)) \<and>
         ((hour (now 1) > 10 \<or> (hour (now 1) = 10 \<and> (minute (now 1) > 0 \<or> second (now 1) > 0))) \<and>
          snd (get_calendar_events client ''primary'' None None) = Inr all_events \<and>
          \<not> (\<exists>e \<in> set all_events. is_10_AM e) \<longrightarrow>
            checks_get (evaluate (RewardFunction_init ''task_3'' client) now resp)
              ''failed_as_expected'' = Some (PBool True) \<and>
            result_get (evaluate (RewardFunction_init ''task_3'' client) now resp)
              ''score'' = Some (PFloat 1)) \<and>
         ((hour (now 1) > 10 \<or> (hour (now 1) = 10 \<and> (minute (now 1) > 0 \<or> second (now 1) > 0))) \<and>
          snd (get_calendar_events client ''primary'' None None) = Inr all_events \<and>
          (\<exists>e \<in> set all_events. is_10_AM e) \<longrightarrow>
            checks_get (evaluate (RewardFunction_init ''task_3'' client) now resp)
              ''failed_as_expected'' = Some (PBool False) \<and>
            result_get (evaluate (RewardFunction_init ''task_3'' client) now resp)
              ''score'' = Some (PFloat 0))"
proof -
  let ?self = "RewardFunction_init ''task_3'' client"
  let ?after = "hour (now 1) > 10 \<or> (hour (now 1) = 10 \<and> (minute (now 1) > 0 \<or> second (now 1) > 0))"
  obtain t where t: "task ?self = Some t"
    using find_task_Some[of "''task_3''"] by (auto simp: init_fields catalog_ids)
  obtain c where c: "validate_past_time_failure ?self now = Inr c"
    using validate_past_time_failure_Inr by blast
  have sel: "select_check ?self now = Inr c"
    using c by (simp add: select_check_task_3 init_fields)
  note ev = evaluate_found_bool(1,3)[OF t sel, of _ resp]
  have early: "hour (now 1) < 10 \<Longrightarrow> dict_get c ''failed_as_expected'' = Some (PBool False)"
    using past_time_not_past[OF before_ten[OF assms] c] by simp
  have sharp: "hour (now 1) = 10 \<and> minute (now 1) = 0 \<and> second (now 1) = 0 \<and>
      microsecond (now 1) = 0 \<Longrightarrow> dict_get c ''failed_as_expected'' = Some (PBool False)"
    using past_time_not_past[OF ten_sharp[OF assms] c] by simp
  have late: "?after \<Longrightarrow> snd (get_calendar_events client ''primary'' None None) = Inr all_events \<Longrightarrow>
      dict_get c ''failed_as_expected'' = Some (PBool (\<not> (\<exists>e \<in> set all_events. is_10_AM e)))"
    using past_time_listed[OF after_ten[OF assms] _ c]
    by (auto simp: init_fields find_None_iff)
  show ?thesis
  proof (intro conjI impI)
    assume "hour (now 1) < 10"
    from ev[OF early[OF this]]
    show "checks_get (evaluate ?self now resp) ''failed_as_expected'' = Some (PBool False)"
      and "result_get (evaluate ?self now resp) ''score'' = Some (PFloat 0)" by simp_all
  next
    assume "hour (now 1) = 10 \<and> minute (now 1) = 0 \<and> second (now 1) = 0 \<and>
      microsecond (now 1) = 0"
    from ev[OF sharp[OF this]]
    show "checks_get (evaluate ?self now resp) ''failed_as_expected'' = Some (PBool False)"
      and "result_get (evaluate ?self now resp) ''score'' = Some (PFloat 0)" by simp_all
  next
    assume a: "?after \<and> snd (get_calendar_events client ''primary'' None None) = Inr all_events \<and>
      \<not> (\<exists>e \<in> set all_events. is_10_AM e)"
    from ev[OF late] a
    show "checks_get (evaluate ?self now resp) ''failed_as_expected'' = Some (PBool True)"
      and "result_get (evaluate ?self now resp) ''score'' = Some (PFloat 1)" by simp_all
  next
    assume a: "?after \<and> snd (get_calendar_events client ''primary'' None None) = Inr all_events \<and>
      (\<exists>e \<in> set all_events. is_10_AM e)"
    from ev[OF late] a
    show "checks_get (evaluate ?self now resp) ''failed_as_expected'' = Some (PBool False)"
      and "result_get (evaluate ?self now resp) ''score'' = Some (PFloat 0)" by simp_all
  qed
qed


lemma clock_at_fields:
  "year (clock_at (time_of_day h m s us) n) = 2024"
  "month (clock_at (time_of_day h m s us) n) = 1"
  "day (clock_at (time_of_day h m s us) n) = 15"
  "hour (clock_at (time_of_day h m s us) n) = h"
  "minute (clock_at (time_of_day h m s us) n) = m"
  "second (clock_at (time_of_day h m s us) n) = s"
  "microsecond (clock_at (time_of_day h m s us) n) = us"
  by (simp_all add: clock_at_def time_of_day_def)

theorem past_time_check_witness:
  "hour (clock_at (time_of_day 9 30 0 0) 1) < 10 \<and>
   result_get (evaluate (RewardFunction_init ''task_3'' (stub_client [] [stub_event ''p'' ''Sync'' ''10:00 AM'']))
     (clock_at (time_of_day 9 30 0 0)) []) ''score'' = Some (PFloat 0) \<and>
   result_get (evaluate (RewardFunction_init ''task_3'' (stub_client [] one_marker_alone))
     (clock_at (time_of_day 10 0 0 0)) []) ''score'' = Some (PFloat 0) \<and>
   hour (clock_at (time_of_day 13 25 0 0) 1) > 10 \<and>
   result_get (evaluate (RewardFunction_init ''task_3'' (stub_client [] one_marker_alone))
     (clock_at (time_of_day 13 25 0 0)) []) ''score'' = Some (PFloat 1) \<and>
   result_get (evaluate (RewardFunction_init ''task_3'' (stub_client [] [stub_event ''p'' ''Sync'' ''10:00 AM'']))
     (clock_at (time_of_day 13 25 0 0)) []) ''score'' = Some (PFloat 0)"
  using past_time_check[where now = "clock_at (time_of_day 9 30 0 0)"
        and client = "stub_client [] [stub_event ''p'' ''Sync'' ''10:00 AM'']" and resp = "[]"]
    past_time_check[where now = "clock_at (time_of_day 10 0 0 0)"
        and client = "stub_client [] one_marker_alone" and resp = "[]"]
    past_time_check[where now = "clock_at (time_of_day 13 25 0 0)"
        and client = "stub_client [] one_marker_alone" and resp = "[]"
        and all_events = "map normalise_event one_marker_alone"]
    past_time_check[where now = "clock_at (time_of_day 13 25 0 0)"
        and client = "stub_client [] [stub_event ''p'' ''Sync'' ''10:00 AM'']" and resp = "[]"
        and all_events = "map normalise_event [stub_event ''p'' ''Sync'' ''10:00 AM'']"]
  by (simp add: clock_at_fields stub_listing is_10_AM_def normalise_stub_event one_marker_alone_def)

text \<open>
  Claim C3 as stated fails at 10:00:00 sharp: the time is at 10:00, the calendar lists
  no event, and the result is false and 0.0.
\<close>

theorem past_time_at_ten_sharp:
  "hour (clock_at (time_of_day 10 0 0 0) 1) = 10 \<and>
   snd (get_calendar_events (stub_client [] []) ''primary'' None None) = Inr [] \<and>
   checks_get (evaluate (RewardFunction_init ''task_3'' (stub_client [] []))
     (clock_at (time_of_day 10 0 0 0)) []) ''failed_as_expected'' = Some (PBool False) \<and>
   result_get (evaluate (RewardFunction_init ''task_3'' (stub_client [] []))
     (clock_at (time_of_day 10 0 0 0)) []) ''score'' = Some (PFloat 0)"
proof -
  let ?self = "RewardFunction_init ''task_3'' (stub_client [] [])"
  let ?now = "clock_at (time_of_day 10 0 0 0)"
  obtain t where t: "task ?self = Some t"
    using find_task_Some[of "''task_3''"] by (auto simp: init_fields catalog_ids)
  obtain c where c: "validate_past_time_failure ?self ?now = Inr c"
    using validate_past_time_failure_Inr by blast
  have sel: "select_check ?self ?now = Inr c"
    using c by (simp add: select_check_task_3 init_fields)
  have "\<not> datetime_gt (?now 1) (replace_hms (?now 2) 10 0 0)"
    by (simp add: datetime_gt_def replace_hms_def clock_at_def time_of_day_def)
  from evaluate_found_bool(1,3)[OF t sel past_time_not_past[OF this c], of "[]"]
  show ?thesis by (simp add: clock_at_fields stub_listing)
qed


lemma raised_recorded:
  assumes "snd r = Some e"
  shows "dict_get (except_Exception r) ''failed_as_expected'' = Some (PBool False)"
    and "dict_get (except_Exception r) ''error'' = Some (PStr (str_exn e))"
  using assms by (simp_all add: except_Exception_def dict_get_dict_set)

lemma email_failure_raised:
  assumes "snd (get_recent_emails (api_client self) ''to:sanat@example.com'' 10) = Inl e"
    and "validate_email_failure self = Inr c"
  shows "dict_get c ''failed_as_expected'' = Some (PBool False)"
  using assms
  by (auto simp: validate_email_failure_def email_failure_checks_def email_failure_try_def
      except_Exception_def dict_get_dict_set)

lemma email_failure_bool:
  assumes "validate_email_failure self = Inr c"
  shows "\<exists>b. dict_get c ''failed_as_expected'' = Some (PBool b)"
proof (cases "snd (get_recent_emails (api_client self) ''to:sanat@example.com'' 10)")
  case (Inl e)
  from email_failure_raised[OF Inl assms] show ?thesis by blast
next
  case (Inr sent_emails)
  from email_failure_found[OF Inr assms] show ?thesis by blast
qed

lemma calendar_conflict_bool:
  assumes "validate_calendar_conflict self = Inr c"
  shows "\<exists>b. dict_get c ''failed_as_expected'' = Some (PBool b)"
proof (cases "snd (get_calendar_events (api_client self) ''primary'' None None)")
  case (Inl e)
  from calendar_conflict_raised(1)[OF Inl assms] show ?thesis by blast
next
  case (Inr all_events)
  from calendar_conflict_branches(1)[OF Inr assms] show ?thesis by blast
qed

lemma past_time_bool:
  assumes "validate_past_time_failure self now = Inr c"
  shows "\<exists>b. dict_get c ''failed_as_expected'' = Some (PBool b)"
proof (cases "datetime_gt (now 1) (replace_hms (now 2) 10 0 0)")
  case False
  from past_time_not_past[OF False assms] show ?thesis by blast
next
  case True
  show ?thesis
  proof (cases "snd (get_calendar_events (api_client self) ''primary'' None None)")
    case (Inl e)
    from past_time_raised[OF True Inl assms] show ?thesis by blast
  next
    case (Inr all_events)
    from past_time_listed[OF True Inr assms] show ?thesis by blast
  qed
qed

lemma select_check_bool:
  assumes "select_check self now = Inr c"
  shows "\<exists>b. (case dict_get c ''failed_as_expected'' of None \<Rightarrow> PBool False | Some v \<Rightarrow> v) = PBool b"
proof -
  consider (t1) "task_id self = ''task_1''" | (t2) "task_id self = ''task_2''"
    | (t3) "task_id self = ''task_3''"
    | (other) "task_id self \<noteq> ''task_1''" "task_id self \<noteq> ''task_2''" "task_id self \<noteq> ''task_3''"
    by blast
  then show ?thesis
  proof cases
    case t1
    then have "validate_email_failure self = Inr c" using assms by (simp add: select_check_def)
    from email_failure_bool[OF this] show ?thesis by auto
  next
    case t2
    then have "validate_calendar_conflict self = Inr c" using assms by (simp add: select_check_def)
    from calendar_conflict_bool[OF this] show ?thesis by auto
  next
    case t3
    then have "validate_past_time_failure self now = Inr c" using assms by (simp add: select_check_def)
    from past_time_bool[OF this] show ?thesis by auto
  next
    case other
    then have "c = []" using assms by (simp add: select_check_def)
    then show ?thesis by auto
  qed
qed

text \<open>
  Claim C4. For every task id of the catalog, every client and every clock, the result
  of \<^verbatim>\<open>evaluate\<close> holds a boolean \<^verbatim>\<open>failure_detected\<close> and a score that is 1.0 exactly
  when \<^verbatim>\<open>failure_detected\<close> is true, and is 0.0 or 1.0 in every case.
\<close>

theorem score_iff_failure_detected:
  assumes "tid \<in> set (map id_of FAILING_TASKS)"
  shows "\<exists>b s. result_get (evaluate (RewardFunction_init tid client) now resp)
                  ''failure_detected'' = Some (PBool b) \<and>
               result_get (evaluate (RewardFunction_init tid client) now resp)
                  ''score'' = Some (PFloat s) \<and>
               (s = 1 \<longleftrightarrow> b) \<and> (s = 0 \<or> s = 1)"
proof -
  let ?self = "RewardFunction_init tid client"
  obtain t where t: "task ?self = Some t"
    using find_task_Some[OF assms] by (auto simp: init_fields)
  obtain c where sel: "select_check ?self now = Inr c"
    using select_check_Inr by blast
  obtain b where b: "(case dict_get c ''failed_as_expected'' of None \<Rightarrow> PBool False | Some v \<Rightarrow> v) = PBool b"
    using select_check_bool[OF sel] by blast
  from evaluate_found(2,3)[OF t sel, of resp] b
  have "result_get (evaluate ?self now resp) ''failure_detected'' = Some (PBool b)"
    and "result_get (evaluate ?self now resp) ''score'' = Some (PFloat (if b then 1 else 0))"
    by simp_all
  then show ?thesis by (intro exI[of _ b] exI[of _ "if b then 1 else 0"]) simp
qed

theorem score_iff_failure_detected_witness:
  "''task_2'' \<in> set (map id_of FAILING_TASKS) \<and>
   (\<exists>b s. result_get (evaluate (RewardFunction_init ''task_2'' (stub_client [] one_marker_clash))
              (clock_at (time_of_day 13 25 0 0)) []) ''failure_detected'' = Some (PBool b) \<and>
           result_get (evaluate (RewardFunction_init ''task_2'' (stub_client [] one_marker_clash))
              (clock_at (time_of_day 13 25 0 0)) []) ''score'' = Some (PFloat s) \<and>
           (s = 1 \<longleftrightarrow> b) \<and> (s = 0 \<or> s = 1))"
  using score_iff_failure_detected[of "''task_2''" "stub_client [] one_marker_clash"
      "clock_at (time_of_day 13 25 0 0)" "[]"]
  by (simp add: catalog_ids)


lemma evaluate_Inr: "\<exists>r. evaluate self now resp = Inr r"
proof (cases "task self")
  case None
  then show ?thesis by (simp add: evaluate_def)
next
  case (Some t)
  obtain c where "select_check self now = Inr c" using select_check_Inr by blast
  with Some show ?thesis by (simp add: evaluate_def Let_def)
qed

lemma evaluate_recorded:
  assumes "task self = Some t" and "select_check self now = Inr (except_Exception r)"
    and "snd r = Some e"
  shows "checks_get (evaluate self now resp) ''error'' = Some (PStr (str_exn e)) \<and>
         checks_get (evaluate self now resp) ''failed_as_expected'' = Some (PBool False) \<and>
         result_get (evaluate self now resp) ''score'' = Some (PFloat 0)"
  using evaluate_found_checks[OF assms(1,2), of resp "''error''"]
    evaluate_found_bool(1,3)[OF assms(1,2) raised_recorded(1)[OF assms(3)], of resp]
    raised_recorded(2)[OF assms(3)]
  by simp

text \<open>
  Claim C7. For each task of the catalog, when the \<^verbatim>\<open>try\<close> block of its check ends
  with an exception, the returned \<^verbatim>\<open>checks\<close> hold the string form of the exception
  under \<^verbatim>\<open>error\<close> and \<^verbatim>\<open>failed_as_expected\<close> false, and the score is 0.0;
  \<^verbatim>\<open>evaluate\<close> itself returns in every case. Exceptions are the subclasses of
  \<^verbatim>\<open>Exception\<close>, which is what the handlers name.
\<close>

theorem check_exception_recorded:
  "(snd (email_failure_try (RewardFunction_init ''task_1'' client) email_failure_checks) = Some e \<longrightarrow>
      checks_get (evaluate (RewardFunction_init ''task_1'' client) now resp) ''error'' =
        Some (PStr (str_exn e)) \<and>
      checks_get (evaluate (RewardFunction_init ''task_1'' client) now resp) ''failed_as_expected'' =
        Some (PBool False) \<and>
      result_get (evaluate (RewardFunction_init ''task_1'' client) now resp) ''score'' =
        Some (PFloat 0)) \<and>
   (snd (calendar_conflict_try (RewardFunction_init ''task_2'' client) calendar_conflict_checks) = Some e \<longrightarrow>
      checks_get (evaluate (RewardFunction_init ''task_2'' client) now resp) ''error'' =
        Some (PStr (str_exn e)) \<and>
      checks_get (evaluate (RewardFunction_init ''task_2'' client) now resp) ''failed_as_expected'' =
        Some (PBool False) \<and>
      result_get (evaluate (RewardFunction_init ''task_2'' client) now resp) ''score'' =
        Some (PFloat 0)) \<and>
   (snd (past_time_try (RewardFunction_init ''task_3'' client) now (past_time_checks now)) = Some e \<longrightarrow>
      checks_get (evaluate (RewardFunction_init ''task_3'' client) now resp) ''error'' =
        Some (PStr (str_exn e)) \<and>
      checks_get (evaluate (RewardFunction_init ''task_3'' client) now resp) ''failed_as_expected'' =
        Some (PBool False) \<and>
      result_get (evaluate (RewardFunction_init ''task_3'' client) now resp) ''score'' =
        Some (PFloat 0)) \<and>
   (\<exists>r. evaluate (RewardFunction_init tid client) now resp = Inr r)"
proof (intro conjI impI)
  let ?s1 = "RewardFunction_init ''task_1'' client"
  assume a: "snd (email_failure_try ?s1 email_failure_checks) = Some e"
  obtain t where t: "task ?s1 = Some t"
    using find_task_Some[of "''task_1''"] by (auto simp: init_fields catalog_ids)
  have sel: "select_check ?s1 now = Inr (except_Exception (email_failure_try ?s1 email_failure_checks))"
    by (simp add: select_check_task_1 init_fields validate_email_failure_def)
  from evaluate_recorded[OF t sel a]
  show "checks_get (evaluate ?s1 now resp) ''error'' = Some (PStr (str_exn e))"
    and "checks_get (evaluate ?s1 now resp) ''failed_as_expected'' = Some (PBool False)"
    and "result_get (evaluate ?s1 now resp) ''score'' = Some (PFloat 0)" by simp_all
next
  let ?s2 = "RewardFunction_init ''task_2'' client"
  assume a: "snd (calendar_conflict_try ?s2 calendar_conflict_checks) = Some e"
  obtain t where t: "task ?s2 = Some t"
    using find_task_Some[of "''task_2''"] by (auto simp: init_fields catalog_ids)
  have sel: "select_check ?s2 now =
      Inr (except_Exception (calendar_conflict_try ?s2 calendar_conflict_checks))"
    by (simp add: select_check_task_2 init_fields validate_calendar_conflict_def)
  from evaluate_recorded[OF t sel a]
  show "checks_get (evaluate ?s2 now resp) ''error'' = Some (PStr (str_exn e))"
    and "checks_get (evaluate ?s2 now resp) ''failed_as_expected'' = Some (PBool False)"
    and "result_get (evaluate ?s2 now resp) ''score'' = Some (PFloat 0)" by simp_all
next
  let ?s3 = "RewardFunction_init ''task_3'' client"
  assume a: "snd (past_time_try ?s3 now (past_time_checks now)) = Some e"
  obtain t where t: "task ?s3 = Some t"
    using find_task_Some[of "''task_3''"] by (auto simp: init_fields catalog_ids)
  have sel: "select_check ?s3 now =
      Inr (except_Exception (past_time_try ?s3 now (past_time_checks now)))"
    by (simp add: select_check_task_3 init_fields validate_past_time_failure_def)
  from evaluate_recorded[OF t sel a]
  show "checks_get (evaluate ?s3 now resp) ''error'' = Some (PStr (str_exn e))"
    and "checks_get (evaluate ?s3 now resp) ''failed_as_expected'' = Some (PBool False)"
    and "result_get (evaluate ?s3 now resp) ''score'' = Some (PFloat 0)" by simp_all
next
  show "\<exists>r. evaluate (RewardFunction_init tid client) now resp = Inr r"
    by (rule evaluate_Inr)
qed

text \<open>When the blocks end with an exception: exactly when the client call raises.\<close>

lemma email_failure_try_raises:
  "snd (email_failure_try self checks) = Some e \<longleftrightarrow>
   snd (get_recent_emails (api_client self) ''to:sanat@example.com'' 10) = Inl e"
  by (auto simp: email_failure_try_def Let_def split: sum.splits)

lemma calendar_conflict_try_raises:
  "snd (calendar_conflict_try self checks) = Some e \<longleftrightarrow>
   snd (get_calendar_events (api_client self) ''primary'' None None) = Inl e"
  by (auto simp: calendar_conflict_try_def Let_def split: sum.splits)

lemma past_time_try_raises:
  "snd (past_time_try self now checks) = Some e \<longleftrightarrow>
   datetime_gt (now 1) (replace_hms (now 2) 10 0 0) \<and>
   snd (get_calendar_events (api_client self) ''primary'' None None) = Inl e"
  by (auto simp: past_time_try_def Let_def split: sum.splits option.splits)

lemma raising_client_calls:
  "get_recent_emails (raising_client e) q n =
     (if is_HttpError e then ([GmailApiError (str_exn e)], Inr []) else ([], Inl e))"
  "get_calendar_events (raising_client e) cid tmin tmax =
     (if is_HttpError e then ([CalendarApiError (str_exn e)], Inr []) else ([], Inl e))"
  by (simp_all add: get_recent_emails_def get_calendar_events_def raising_client_def
      search_messages_def list_events_def)

theorem check_exception_recorded_witness:
  "snd (email_failure_try (RewardFunction_init ''task_1'' (raising_client (OtherException ''timed out'')))
          email_failure_checks) = Some (OtherException ''timed out'') \<and>
   checks_get (evaluate (RewardFunction_init ''task_1'' (raising_client (OtherException ''timed out'')))
          (clock_at (time_of_day 13 25 0 0)) []) ''error'' = Some (PStr ''timed out'') \<and>
   result_get (evaluate (RewardFunction_init ''task_1'' (raising_client (OtherException ''timed out'')))
          (clock_at (time_of_day 13 25 0 0)) []) ''score'' = Some (PFloat 0) \<and>
   checks_get (evaluate (RewardFunction_init ''task_2'' (raising_client (OtherException ''timed out'')))
          (clock_at (time_of_day 13 25 0 0)) []) ''error'' = Some (PStr ''timed out'') \<and>
   result_get (evaluate (RewardFunction_init ''task_2'' (raising_client (OtherException ''timed out'')))
          (clock_at (time_of_day 13 25 0 0)) []) ''score'' = Some (PFloat 0) \<and>
   checks_get (evaluate (RewardFunction_init ''task_3'' (raising_client (OtherException ''timed out'')))
          (clock_at (time_of_day 13 25 0 0)) []) ''error'' = Some (PStr ''timed out'') \<and>
   result_get (evaluate (RewardFunction_init ''task_3'' (raising_client (OtherException ''timed out'')))
          (clock_at (time_of_day 13 25 0 0)) []) ''score'' = Some (PFloat 0)"
proof -
  have gt: "datetime_gt (clock_at (time_of_day 13 25 0 0) 1)
              (replace_hms (clock_at (time_of_day 13 25 0 0) 2) 10 0 0)"
    by (simp add: datetime_gt_def replace_hms_def clock_at_def time_of_day_def)
  show ?thesis
    using check_exception_recorded[where client = "raising_client (OtherException ''timed out'')"
        and e = "OtherException ''timed out''" and now = "clock_at (time_of_day 13 25 0 0)"
        and resp = "[]" and tid = "''task_1''"] gt
    by (simp add: email_failure_try_raises calendar_conflict_try_raises past_time_try_raises
        raising_client_calls init_fields)
qed


text \<open>
  Claim C6 as stated fails for \<^verbatim>\<open>task_3\<close>: against one and the same remote state, an
  invocation at 09:00 scores 0.0 and an invocation at 11:00 scores 1.0.
\<close>

theorem evaluate_depends_on_clock:
  "result_get (evaluate (RewardFunction_init ''task_3'' (stub_client [] []))
     (clock_at (time_of_day 9 0 0 0)) []) ''score'' = Some (PFloat 0) \<and>
   result_get (evaluate (RewardFunction_init ''task_3'' (stub_client [] []))
     (clock_at (time_of_day 11 0 0 0)) []) ''score'' = Some (PFloat 1) \<and>
   evaluate (RewardFunction_init ''task_3'' (stub_client [] [])) (clock_at (time_of_day 9 0 0 0)) [] \<noteq>
   evaluate (RewardFunction_init ''task_3'' (stub_client [] [])) (clock_at (time_of_day 11 0 0 0)) []"
proof -
  let ?self = "RewardFunction_init ''task_3'' (stub_client [] [])"
  let ?am = "clock_at (time_of_day 9 0 0 0)"
  let ?pm = "clock_at (time_of_day 11 0 0 0)"
  obtain t where t: "task ?self = Some t"
    using find_task_Some[of "''task_3''"] by (auto simp: init_fields catalog_ids)
  obtain c where c: "validate_past_time_failure ?self ?am = Inr c"
    using validate_past_time_failure_Inr by blast
  obtain c' where c': "validate_past_time_failure ?self ?pm = Inr c'"
    using validate_past_time_failure_Inr by blast
  have sel: "select_check ?self ?am = Inr c" "select_check ?self ?pm = Inr c'"
    using c c' by (simp_all add: select_check_task_3 init_fields)
  have am: "\<not> datetime_gt (?am 1) (replace_hms (?am 2) 10 0 0)"
    by (simp add: datetime_gt_def replace_hms_def clock_at_def time_of_day_def)
  have pm: "datetime_gt (?pm 1) (replace_hms (?pm 2) 10 0 0)"
    by (simp add: datetime_gt_def replace_hms_def clock_at_def time_of_day_def)
  have lst: "snd (get_calendar_events (api_client ?self) ''primary'' None None) = Inr []"
    by (simp add: init_fields stub_listing)
  have 1: "result_get (evaluate ?self ?am []) ''score'' = Some (PFloat 0)"
    using evaluate_found_bool(3)[OF t sel(1) past_time_not_past[OF am c], of "[]"] by simp
  have 2: "result_get (evaluate ?self ?pm []) ''score'' = Some (PFloat 1)"
    using evaluate_found_bool(3)[OF t sel(2) past_time_listed[OF pm lst c'], of "[]"] by simp
  from 1 2 have "evaluate ?self ?am [] \<noteq> evaluate ?self ?pm []" by auto
  with 1 2 show ?thesis by blast
qed

text \<open>
  Claim C6, as amended. The result of \<^verbatim>\<open>evaluate\<close> is a function of the task id, the
  remote state and, for \<^verbatim>\<open>task_3\<close> only, the three readings of the local clock that
  its check takes: two invocations against the same remote state agree when the task
  is not \<^verbatim>\<open>task_3\<close>, or when those readings agree. The agent's response has no
  influence.
\<close>

theorem evaluate_function_of_readings:
  assumes "tid \<noteq> ''task_3'' \<or> (now 0 = now' 0 \<and> now 1 = now' 1 \<and> now 2 = now' 2)"
  shows "evaluate (RewardFunction_init tid client) now resp =
         evaluate (RewardFunction_init tid client) now' resp'"
proof -
  have h: "select_check (RewardFunction_init tid client) now =
           select_check (RewardFunction_init tid client) now'"
    using assms
    by (auto simp: select_check_def init_fields validate_past_time_failure_def
        past_time_checks_def past_time_try_def)
  show ?thesis unfolding evaluate_def h by (rule refl)
qed

theorem evaluate_function_of_readings_witness:
  "''task_1'' \<noteq> ''task_3'' \<and>
   evaluate (RewardFunction_init ''task_1'' (stub_client [\<lparr>ref_id = Some ''m1''\<rparr>] []))
     (clock_at (time_of_day 9 0 0 0)) ''first'' =
   evaluate (RewardFunction_init ''task_1'' (stub_client [\<lparr>ref_id = Some ''m1''\<rparr>] []))
     (clock_at (time_of_day 11 0 0 0)) ''second'' \<and>
   evaluate (RewardFunction_init ''task_3'' (stub_client [] []))
     (clock_at (time_of_day 11 0 0 0)) ''first'' =
   evaluate (RewardFunction_init ''task_3'' (stub_client [] []))
     (\<lambda>n. if n < 3 then time_of_day 11 0 0 0 else time_of_day 11 0 1 0) ''second''"
  using evaluate_function_of_readings[of "''task_1''" "clock_at (time_of_day 9 0 0 0)"
      "clock_at (time_of_day 11 0 0 0)" "stub_client [\<lparr>ref_id = Some ''m1''\<rparr>] []" "''first''" "''second''"]
    evaluate_function_of_readings[of "''task_3''" "clock_at (time_of_day 11 0 0 0)"
      "\<lambda>n. if n < 3 then time_of_day 11 0 0 0 else time_of_day 11 0 1 0"  "stub_client [] []" "''first''" "''second''"]
  by (simp add: clock_at_def)

text \<open>
  Claim C8 as stated fails for an exception that is not an \<^verbatim>\<open>HttpError\<close>: a timeout
  raised by the remote call leaves both \<^verbatim>\<open>get_recent_emails\<close> and
  \<^verbatim>\<open>get_calendar_events\<close>, with nothing logged.
\<close>

theorem client_propagates_other_exception:
  "\<not> is_HttpError (OtherException ''timed out'') \<and>
   get_recent_emails (raising_client (OtherException ''timed out'')) ''to:sanat@example.com'' 10 =
     ([], Inl (OtherException ''timed out'')) \<and>
   get_calendar_events (raising_client (OtherException ''timed out'')) ''primary'' None None =
     ([], Inl (OtherException ''timed out''))"
  by (simp add: raising_client_calls)

text \<open>
  What escapes the client ends the \<^verbatim>\<open>try\<close> block of the check that called it, whose
  handler records it.
\<close>

lemma email_check_records:
  assumes "snd (get_recent_emails client ''to:sanat@example.com'' 10) = Inl e"
  shows "checks_get (evaluate (RewardFunction_init ''task_1'' client) now resp) ''error'' =
           Some (PStr (str_exn e)) \<and>
         checks_get (evaluate (RewardFunction_init ''task_1'' client) now resp)
           ''failed_as_expected'' = Some (PBool False) \<and>
         result_get (evaluate (RewardFunction_init ''task_1'' client) now resp) ''score'' =
           Some (PFloat 0)"
proof -
  let ?self = "RewardFunction_init ''task_1'' client"
  obtain t where t: "task ?self = Some t"
    using find_task_Some[of "''task_1''"] by (auto simp: init_fields catalog_ids)
  have sel: "select_check ?self now =
      Inr (except_Exception (email_failure_try ?self email_failure_checks))"
    by (simp add: select_check_task_1 init_fields validate_email_failure_def)
  have "snd (email_failure_try ?self email_failure_checks) = Some e"
    using assms by (simp add: email_failure_try_raises init_fields)
  from evaluate_recorded[OF t sel this] show ?thesis .
qed

lemma calendar_check_records:
  assumes "snd (get_calendar_events client ''primary'' None None) = Inl e"
  shows "checks_get (evaluate (RewardFunction_init ''task_2'' client) now resp) ''error'' =
           Some (PStr (str_exn e)) \<and>
         checks_get (evaluate (RewardFunction_init ''task_2'' client) now resp)
           ''failed_as_expected'' = Some (PBool False) \<and>
         result_get (evaluate (RewardFunction_init ''task_2'' client) now resp) ''score'' =
           Some (PFloat 0)"
proof -
  let ?self = "RewardFunction_init ''task_2'' client"
  obtain t where t: "task ?self = Some t"
    using find_task_Some[of "''task_2''"] by (auto simp: init_fields catalog_ids)
  have sel: "select_check ?self now =
      Inr (except_Exception (calendar_conflict_try ?self calendar_conflict_checks))"
    by (simp add: select_check_task_2 init_fields validate_calendar_conflict_def)
  have "snd (calendar_conflict_try ?self calendar_conflict_checks) = Some e"
    using assms by (simp add: calendar_conflict_try_raises init_fields)
  from evaluate_recorded[OF t sel this] show ?thesis .
qed

lemma past_time_check_records:
  assumes "datetime_gt (now 1) (replace_hms (now 2) 10 0 0)"
    and "snd (get_calendar_events client ''primary'' None None) = Inl e"
  shows "checks_get (evaluate (RewardFunction_init ''task_3'' client) now resp) ''error'' =
           Some (PStr (str_exn e)) \<and>
         checks_get (evaluate (RewardFunction_init ''task_3'' client) now resp)
           ''failed_as_expected'' = Some (PBool False) \<and>
         result_get (evaluate (RewardFunction_init ''task_3'' client) now resp) ''score'' =
           Some (PFloat 0)"
proof -
  let ?self = "RewardFunction_init ''task_3'' client"
  obtain t where t: "task ?self = Some t"
    using find_task_Some[of "''task_3''"] by (auto simp: init_fields catalog_ids)
  have sel: "select_check ?self now =
      Inr (except_Exception (past_time_try ?self now (past_time_checks now)))"
    by (simp add: select_check_task_3 init_fields validate_past_time_failure_def)
  have "snd (past_time_try ?self now (past_time_checks now)) = Some e"
    using assms by (simp add: past_time_try_raises init_fields)
  from evaluate_recorded[OF t sel this] show ?thesis .
qed

text \<open>The two \<^verbatim>\<open>except HttpError\<close> clauses, case by case.\<close>

lemma get_recent_emails_raised:
  assumes "gmail_service self = Some gmail" and "search_messages gmail query max_results = Inl e"
  shows "get_recent_emails self query max_results =
           (if is_HttpError e then ([GmailApiError (str_exn e)], Inr []) else ([], Inl e))"
  using assms by (simp add: get_recent_emails_def)

lemma get_calendar_events_raised:
  assumes "calendar_service self = Some cal"
    and "list_events cal calendar_id time_min time_max = Inl e"
  shows "get_calendar_events self calendar_id time_min time_max =
           (if is_HttpError e then ([CalendarApiError (str_exn e)], Inr []) else ([], Inl e))"
  using assms by (simp add: get_calendar_events_def)

lemma client_never_raises_HttpError:
  "snd (get_recent_emails self query max_results) \<noteq> Inl (HttpError m)"
  "snd (get_calendar_events self calendar_id time_min time_max) \<noteq> Inl (HttpError m)"
  by (auto simp: get_recent_emails_def get_calendar_events_def split: option.splits sum.splits)

text \<open>
  Claim C8, as amended. For every query, an \<^verbatim>\<open>HttpError\<close> raised by the remote message
  search or by the calendar listing is caught inside the client, which logs it and
  returns an empty sequence; no \<^verbatim>\<open>HttpError\<close> ever reaches the caller. An exception of
  any other class is not caught there: it leaves \<^verbatim>\<open>get_recent_emails\<close> or
  \<^verbatim>\<open>get_calendar_events\<close> unchanged, with nothing logged, and reaches the check that
  made the call, whose handler records it under \<^verbatim>\<open>error\<close> with
  \<^verbatim>\<open>failed_as_expected\<close> false and score 0.0.
\<close>

theorem client_catches_HttpError:
  "(gmail_service self = Some gmail \<and> search_messages gmail query max_results = Inl (HttpError m) \<longrightarrow>
      get_recent_emails self query max_results = ([GmailApiError m], Inr [])) \<and>
   (calendar_service self = Some cal \<and> list_events cal calendar_id time_min time_max = Inl (HttpError m) \<longrightarrow>
      get_calendar_events self calendar_id time_min time_max = ([CalendarApiError m], Inr [])) \<and>
   snd (get_recent_emails self query max_results) \<noteq> Inl (HttpError m) \<and>
   snd (get_calendar_events self calendar_id time_min time_max) \<noteq> Inl (HttpError m) \<and>
   (gmail_service self = Some gmail \<and> search_messages gmail query max_results = Inl e \<and>
    \<not> is_HttpError e \<longrightarrow>
      get_recent_emails self query max_results = ([], Inl e)) \<and>
   (calendar_service self = Some cal \<and> list_events cal calendar_id time_min time_max = Inl e \<and>
    \<not> is_HttpError e \<longrightarrow>
      get_calendar_events self calendar_id time_min time_max = ([], Inl e)) \<and>
   (snd (get_recent_emails self ''to:sanat@example.com'' 10) = Inl e \<longrightarrow>
      checks_get (evaluate (RewardFunction_init ''task_1'' self) now resp) ''error'' =
        Some (PStr (str_exn e)) \<and>
      checks_get (evaluate (RewardFunction_init ''task_1'' self) now resp)
        ''failed_as_expected'' = Some (PBool False) \<and>
      result_get (evaluate (RewardFunction_init ''task_1'' self) now resp) ''score'' =
        Some (PFloat 0)) \<and>
   (snd (get_calendar_events self ''primary'' None None) = Inl e \<longrightarrow>
      checks_get (evaluate (RewardFunction_init ''task_2'' self) now resp) ''error'' =
        Some (PStr (str_exn e)) \<and>
      checks_get (evaluate (RewardFunction_init ''task_2'' self) now resp)
        ''failed_as_expected'' = Some (PBool False) \<and>
      result_get (evaluate (RewardFunction_init ''task_2'' self) now resp) ''score'' =
        Some (PFloat 0)) \<and>
   (datetime_gt (now 1) (replace_hms (now 2) 10 0 0) \<and>
    snd (get_calendar_events self ''primary'' None None) = Inl e \<longrightarrow>
      checks_get (evaluate (RewardFunction_init ''task_3'' self) now resp) ''error'' =
        Some (PStr (str_exn e)) \<and>
      checks_get (evaluate (RewardFunction_init ''task_3'' self) now resp)
        ''failed_as_expected'' = Some (PBool False) \<and>
      result_get (evaluate (RewardFunction_init ''task_3'' self) now resp) ''score'' =
        Some (PFloat 0))"
proof (intro conjI impI)
  assume "gmail_service self = Some gmail \<and>
    search_messages gmail query max_results = Inl (HttpError m)"
  then show "get_recent_emails self query max_results = ([GmailApiError m], Inr [])"
    using get_recent_emails_raised[of self gmail query max_results "HttpError m"] by simp
next
  assume "calendar_service self = Some cal \<and>
    list_events cal calendar_id time_min time_max = Inl (HttpError m)"
  then show "get_calendar_events self calendar_id time_min time_max = ([CalendarApiError m], Inr [])"
    using get_calendar_events_raised[of self cal calendar_id time_min time_max "HttpError m"]
    by simp
next
  show "snd (get_recent_emails self query max_results) \<noteq> Inl (HttpError m)"
    by (rule client_never_raises_HttpError)
next
  show "snd (get_calendar_events self calendar_id time_min time_max) \<noteq> Inl (HttpError m)"
    by (rule client_never_raises_HttpError)
next
  assume "gmail_service self = Some gmail \<and>
    search_messages gmail query max_results = Inl e \<and> \<not> is_HttpError e"
  then show "get_recent_emails self query max_results = ([], Inl e)"
    using get_recent_emails_raised[of self gmail query max_results e] by simp
next
  assume "calendar_service self = Some cal \<and>
    list_events cal calendar_id time_min time_max = Inl e \<and> \<not> is_HttpError e"
  then show "get_calendar_events self calendar_id time_min time_max = ([], Inl e)"
    using get_calendar_events_raised[of self cal calendar_id time_min time_max e] by simp
next
  assume a: "snd (get_recent_emails self ''to:sanat@example.com'' 10) = Inl e"
  from email_check_records[OF a, of now resp]
  show "checks_get (evaluate (RewardFunction_init ''task_1'' self) now resp) ''error'' =
          Some (PStr (str_exn e))"
    and "checks_get (evaluate (RewardFunction_init ''task_1'' self) now resp)
          ''failed_as_expected'' = Some (PBool False)"
    and "result_get (evaluate (RewardFunction_init ''task_1'' self) now resp) ''score'' =
          Some (PFloat 0)" by simp_all
next
  assume a: "snd (get_calendar_events self ''primary'' None None) = Inl e"
  from calendar_check_records[OF a, of now resp]
  show "checks_get (evaluate (RewardFunction_init ''task_2'' self) now resp) ''error'' =
          Some (PStr (str_exn e))"
    and "checks_get (evaluate (RewardFunction_init ''task_2'' self) now resp)
          ''failed_as_expected'' = Some (PBool False)"
    and "result_get (evaluate (RewardFunction_init ''task_2'' self) now resp) ''score'' =
          Some (PFloat 0)" by simp_all
next
  assume a: "datetime_gt (now 1) (replace_hms (now 2) 10 0 0) \<and>
    snd (get_calendar_events self ''primary'' None None) = Inl e"
  from past_time_check_records[of now self e resp] a
  show "checks_get (evaluate (RewardFunction_init ''task_3'' self) now resp) ''error'' =
          Some (PStr (str_exn e))"
    and "checks_get (evaluate (RewardFunction_init ''task_3'' self) now resp)
          ''failed_as_expected'' = Some (PBool False)"
    and "result_get (evaluate (RewardFunction_init ''task_3'' self) now resp) ''score'' =
          Some (PFloat 0)" by simp_all
qed

lemma missing_id_search:
  "search_messages (stub_gmail [\<lparr>ref_id = None\<rparr>]) query max_results = Inl (KeyError ''id'')"
  by (simp add: search_messages_def stub_gmail_def fetch_email_def)

lemma raising_services:
  "gmail_service (raising_client e) =
     Some \<lparr>messages_list = (\<lambda>q n. Inl e), messages_get = (\<lambda>i. Inl e)\<rparr>"
  "calendar_service (raising_client e) = Some \<lparr>events_list = (\<lambda>kw. Inl e)\<rparr>"
  "search_messages \<lparr>messages_list = (\<lambda>q n. Inl e), messages_get = (\<lambda>i. Inl e)\<rparr> query max_results =
     Inl e"
  "list_events \<lparr>events_list = (\<lambda>kw. Inl e)\<rparr> calendar_id time_min time_max = Inl e"
  by (simp_all add: raising_client_def search_messages_def list_events_def)

theorem client_catches_HttpError_witness:
  "search_messages \<lparr>messages_list = (\<lambda>q n. Inl (HttpError ''503'')),
                    messages_get = (\<lambda>i. Inl (HttpError ''503''))\<rparr>
     ''to:sanat@example.com'' 10 = Inl (HttpError ''503'') \<and>
   get_recent_emails (raising_client (HttpError ''503'')) ''to:sanat@example.com'' 10 =
     ([GmailApiError ''503''], Inr []) \<and>
   list_events \<lparr>events_list = (\<lambda>kw. Inl (HttpError ''503''))\<rparr> ''primary'' None None =
     Inl (HttpError ''503'') \<and>
   get_calendar_events (raising_client (HttpError ''503'')) ''primary'' None None =
     ([CalendarApiError ''503''], Inr []) \<and>
   search_messages (stub_gmail [\<lparr>ref_id = None\<rparr>]) ''to:sanat@example.com'' 10 =
     Inl (KeyError ''id'') \<and>
   \<not> is_HttpError (KeyError ''id'') \<and>
   get_recent_emails (stub_client [\<lparr>ref_id = None\<rparr>] []) ''to:sanat@example.com'' 10 =
     ([], Inl (KeyError ''id'')) \<and>
   checks_get (evaluate (RewardFunction_init ''task_1'' (stub_client [\<lparr>ref_id = None\<rparr>] []))
     (clock_at (time_of_day 13 25 0 0)) []) ''error'' = Some (PStr (str_exn (KeyError ''id''))) \<and>
   result_get (evaluate (RewardFunction_init ''task_1'' (stub_client [\<lparr>ref_id = None\<rparr>] []))
     (clock_at (time_of_day 13 25 0 0)) []) ''score'' = Some (PFloat 0) \<and>
   \<not> is_HttpError (OtherException ''name lookup failed'') \<and>
   get_calendar_events (raising_client (OtherException ''name lookup failed'')) ''primary'' None None =
     ([], Inl (OtherException ''name lookup failed'')) \<and>
   checks_get (evaluate (RewardFunction_init ''task_2'' (raising_client (OtherException ''name lookup failed'')))
     (clock_at (time_of_day 13 25 0 0)) []) ''error'' = Some (PStr ''name lookup failed'') \<and>
   result_get (evaluate (RewardFunction_init ''task_2'' (raising_client (OtherException ''name lookup failed'')))
     (clock_at (time_of_day 13 25 0 0)) []) ''score'' = Some (PFloat 0) \<and>
   datetime_gt (clock_at (time_of_day 13 25 0 0) 1)
     (replace_hms (clock_at (time_of_day 13 25 0 0) 2) 10 0 0) \<and>
   checks_get (evaluate (RewardFunction_init ''task_3'' (raising_client (OtherException ''name lookup failed'')))
     (clock_at (time_of_day 13 25 0 0)) []) ''error'' = Some (PStr ''name lookup failed'') \<and>
   result_get (evaluate (RewardFunction_init ''task_3'' (raising_client (OtherException ''name lookup failed'')))
     (clock_at (time_of_day 13 25 0 0)) []) ''score'' = Some (PFloat 0)"
proof -
  have gt: "datetime_gt (clock_at (time_of_day 13 25 0 0) 1)
              (replace_hms (clock_at (time_of_day 13 25 0 0) 2) 10 0 0)"
    by (simp add: datetime_gt_def replace_hms_def clock_at_def time_of_day_def)
  have g: "gmail_service (stub_client [\<lparr>ref_id = None\<rparr>] []) = Some (stub_gmail [\<lparr>ref_id = None\<rparr>])"
    by (simp add: stub_client_def)
  note http = client_catches_HttpError[where self = "raising_client (HttpError ''503'')"
      and gmail = "\<lparr>messages_list = (\<lambda>q n. Inl (HttpError ''503'')),
                    messages_get = (\<lambda>i. Inl (HttpError ''503''))\<rparr>"
      and cal = "\<lparr>events_list = (\<lambda>kw. Inl (HttpError ''503''))\<rparr>"
      and query = "''to:sanat@example.com''" and max_results = 10 and m = "''503''"
      and calendar_id = "''primary''" and time_min = None and time_max = None
      and e = "HttpError ''503''" and now = "clock_at (time_of_day 13 25 0 0)" and resp = "[]"]
  note key = client_catches_HttpError[where self = "stub_client [\<lparr>ref_id = None\<rparr>] []"
      and gmail = "stub_gmail [\<lparr>ref_id = None\<rparr>]" and cal = "stub_calendar []"
      and query = "''to:sanat@example.com''" and max_results = 10 and m = "''503''"
      and calendar_id = "''primary''" and time_min = None and time_max = None
      and e = "KeyError ''id''" and now = "clock_at (time_of_day 13 25 0 0)" and resp = "[]"]
  note other = client_catches_HttpError[where self = "raising_client (OtherException ''name lookup failed'')"
      and gmail = "\<lparr>messages_list = (\<lambda>q n. Inl (OtherException ''name lookup failed'')),
                    messages_get = (\<lambda>i. Inl (OtherException ''name lookup failed''))\<rparr>"
      and cal = "\<lparr>events_list = (\<lambda>kw. Inl (OtherException ''name lookup failed''))\<rparr>"
      and query = "''to:sanat@example.com''" and max_results = 10 and m = "''503''"
      and calendar_id = "''primary''" and time_min = None and time_max = None
      and e = "OtherException ''name lookup failed''"
      and now = "clock_at (time_of_day 13 25 0 0)" and resp = "[]"]
  have k1: "get_recent_emails (stub_client [\<lparr>ref_id = None\<rparr>] []) ''to:sanat@example.com'' 10 =
      ([], Inl (KeyError ''id''))"
    using key g missing_id_search by simp
  have k2: "checks_get (evaluate (RewardFunction_init ''task_1'' (stub_client [\<lparr>ref_id = None\<rparr>] []))
       (clock_at (time_of_day 13 25 0 0)) []) ''error'' = Some (PStr (str_exn (KeyError ''id''))) \<and>
     result_get (evaluate (RewardFunction_init ''task_1'' (stub_client [\<lparr>ref_id = None\<rparr>] []))
       (clock_at (time_of_day 13 25 0 0)) []) ''score'' = Some (PFloat 0)"
    using key k1 by simp
  have o1: "get_calendar_events (raising_client (OtherException ''name lookup failed''))
      ''primary'' None None = ([], Inl (OtherException ''name lookup failed''))"
    using other by (simp add: raising_services)
  have o2: "checks_get (evaluate (RewardFunction_init ''task_2''
         (raising_client (OtherException ''name lookup failed'')))
       (clock_at (time_of_day 13 25 0 0)) []) ''error'' = Some (PStr ''name lookup failed'') \<and>
     result_get (evaluate (RewardFunction_init ''task_2''
         (raising_client (OtherException ''name lookup failed'')))
       (clock_at (time_of_day 13 25 0 0)) []) ''score'' = Some (PFloat 0) \<and>
     checks_get (evaluate (RewardFunction_init ''task_3''
         (raising_client (OtherException ''name lookup failed'')))
       (clock_at (time_of_day 13 25 0 0)) []) ''error'' = Some (PStr ''name lookup failed'') \<and>
     result_get (evaluate (RewardFunction_init ''task_3''
         (raising_client (OtherException ''name lookup failed'')))
       (clock_at (time_of_day 13 25 0 0)) []) ''score'' = Some (PFloat 0)"
    using other o1 gt by simp
  have h: "get_recent_emails (raising_client (HttpError ''503'')) ''to:sanat@example.com'' 10 =
       ([GmailApiError ''503''], Inr []) \<and>
     get_calendar_events (raising_client (HttpError ''503'')) ''primary'' None None =
       ([CalendarApiError ''503''], Inr [])"
    using http by (simp add: raising_services)
  show ?thesis
    using h k1 k2 o1 o2 gt missing_id_search by (simp add: raising_services)
qed

end
